theory Spec2Isabelle
  imports
    Complex_Main
    "HOL-Library.AList"
    "HOL-Library.Char_ord"
    "HOL-Library.List_Lexorder"
    "HOL-Library.Product_Lexorder"
begin

section \<open>Python values used by the handlers of TT.py\<close>

text \<open>
  Strings are lists of 8-bit characters.  \<open>str.strip()\<close> removes leading and trailing
  characters for which \<open>str.isspace\<close> holds; below code point 256 these are the ones listed.
\<close>

definition whitespace :: "char list" where
  "whitespace =
     [CHR 0x09, CHR 0x0A, CHR 0x0B, CHR 0x0C, CHR 0x0D, CHR 0x1C, CHR 0x1D, CHR 0x1E,
      CHR 0x1F, CHR 0x20, CHR 0x85, CHR 0xA0]"

definition isspace :: "char \<Rightarrow> bool" where
  "isspace c = (c \<in> set whitespace)"

definition strip :: "string \<Rightarrow> string" where
  "strip s = rev (dropWhile isspace (rev (dropWhile isspace s)))"

text \<open>\<open>str(n)\<close> for an integer, as the f-strings of the source format it.\<close>

definition digit_char :: "nat \<Rightarrow> char" where
  "digit_char d = ''0123456789'' ! d"

fun str_nat :: "nat \<Rightarrow> string" where
  "str_nat n = (if n < 10 then [digit_char n] else str_nat (n div 10) @ [digit_char (n mod 10)])"

declare str_nat.simps [simp del]

definition str_int :: "int \<Rightarrow> string" where
  "str_int i = (if i < 0 then CHR ''-'' # str_nat (nat (- i)) else str_nat (nat i))"

text \<open>
  \<open>min(xs)\<close> and \<open>max(xs)\<close> raise \<open>ValueError\<close> on an empty list; a dictionary subscript
  raises \<open>KeyError\<close> on a missing key; comparing an \<open>int\<close> with a \<open>str\<close> or \<open>bytes\<close>, and
  indexing a list with a \<open>float\<close>, raise \<open>TypeError\<close>.
\<close>

datatype py_error = ValueError | KeyError | TypeError

fun py_min :: "int list \<Rightarrow> py_error + int" where
  "py_min [] = Inl ValueError"
| "py_min (x # xs) = Inr (fold min xs x)"

fun py_max :: "int list \<Rightarrow> py_error + int" where
  "py_max [] = Inl ValueError"
| "py_max (x # xs) = Inr (fold max xs x)"

text \<open>
  \<open>request.form\<close> and \<open>session\<close> are dictionaries from strings to strings; they are kept
  as association lists, read with \<open>map_of\<close> and written with \<open>AList.update\<close> (which
  replaces in place or appends, as a Python \<open>dict\<close> does).
\<close>

type_synonym form = "(string \<times> string) list"
type_synonym session = "(string \<times> string) list"

definition contains :: "string \<Rightarrow> (string \<times> string) list \<Rightarrow> bool" where
  "contains k d = (map_of d k \<noteq> None)"

datatype http_method = GET | POST

section \<open>The store: the three tables of \<open>init_db\<close>\<close>

text \<open>
  \<open>users(id, username UNIQUE, password)\<close>, \<open>teachers(id AUTOINCREMENT, name UNIQUE,
  subject)\<close> and \<open>timetable(id, class_name, slot, teacher_name, timestamp,
  UNIQUE(class_name, slot) ON CONFLICT REPLACE)\<close>.  The row id and the timestamp of a
  timetable row are read by no handler modelled here and are left out.
  \<open>teachers_seq\<close> is the AUTOINCREMENT counter of the teachers table (the largest id ever
  handed out).

  The column \<open>slot INTEGER NOT NULL\<close> has integer affinity only: the engine stores an
  integer where the value given is one (or converts to one without loss), and otherwise
  keeps the value as it is, so a row written by other means than this application may
  hold a real number, a text or a blob as its slot.  \<open>SqlInfinity True\<close> is \<open>+Inf\<close>,
  \<open>SqlInfinity False\<close> is \<open>-Inf\<close>; there is no \<open>NULL\<close>, which \<open>NOT NULL\<close> refuses.
  The columns \<open>class_name\<close> and \<open>teacher_name\<close> have text affinity, which turns a number
  into its text; their values are taken to be texts (a blob, which the engine would keep
  as it is, is left out).
\<close>

datatype sql_value =
    SqlInteger int
  | SqlReal real
  | SqlInfinity bool
  | SqlText string
  | SqlBlob string

record user =
  user_id :: int
  username :: string
  password :: string

record teacher =
  teacher_id :: int
  name :: string
  subject :: string

record 'v timetable_row =
  class_name :: string
  slot :: 'v
  teacher_name :: string

text \<open>
  A row as stored, and a row of the data frame the exporter pivots (used for frames all of
  whose slots are integers).
\<close>

type_synonym stored_row = "sql_value timetable_row"
type_synonym frame_row = "int timetable_row"

record database =
  users :: "user list"
  teachers :: "teacher list"
  teachers_seq :: int
  timetable :: "stored_row list"

section \<open>Route 1: login\<close>

datatype login_response =
    LoginPage "string option"
  | RedirectDashboard

text \<open>
  \<open>check_password_hash\<close> (werkzeug) is a parameter: \<open>check h p\<close> tells whether password
  \<open>p\<close> matches the stored hash \<open>h\<close>.  \<open>conn_ok\<close> tells whether \<open>connect_db\<close> returns a
  connection.  The result is the response and the session after the request.
  \<open>not username or not password\<close> holds when a field is absent (\<open>None\<close>) or empty.
\<close>

definition login ::
  "(string \<Rightarrow> string \<Rightarrow> bool) \<Rightarrow> bool \<Rightarrow> http_method \<Rightarrow> form \<Rightarrow> session \<Rightarrow> database
     \<Rightarrow> login_response \<times> session" where
  "login check_password_hash conn_ok method frm sess db =
     (if method = POST then
        (case (map_of frm ''username'', map_of frm ''password'') of
           (Some uname, Some pw) \<Rightarrow>
             if uname = [] \<or> pw = [] then
               (LoginPage (Some ''Username and password are required.''), sess)
             else if \<not> conn_ok then
               (LoginPage (Some ''Database connection failed.''), sess)
             else
               (case find (\<lambda>u. username u = uname) (users db) of
                  Some user_data \<Rightarrow>
                    if check_password_hash (password user_data) pw then
                      (RedirectDashboard, AList.update ''user'' uname sess)
                    else (LoginPage (Some ''Invalid Credentials.''), sess)
                | None \<Rightarrow> (LoginPage (Some ''Invalid Credentials.''), sess))
         | _ \<Rightarrow> (LoginPage (Some ''Username and password are required.''), sess))
      else (LoginPage None, sess))"


section \<open>Routes 2 and 3: add and delete a teacher\<close>

text \<open>
  The engine's answer to an \<open>INSERT\<close>.  Under AUTOINCREMENT the new id is one more than
  the largest id the table has ever held; ids are 64-bit, and once the largest one,
  \<open>2^63 - 1\<close>, has been used every insert fails with \<open>sqlite3.OperationalError\<close>
  "database or disk is full", whatever the name.  Otherwise the insert fails with
  \<open>sqlite3.IntegrityError\<close> when the UNIQUE constraint on \<open>name\<close> is violated, and else
  the row is appended.  \<open>OtherError\<close> stands for any \<open>sqlite3.Error\<close> that is not an
  \<open>IntegrityError\<close>, with its text.
\<close>

datatype sql_error = IntegrityError | OtherError string

definition max_rowid :: int where
  "max_rowid = 9223372036854775807"

definition largest_id :: "database \<Rightarrow> int" where
  "largest_id db = fold max (map teacher_id (teachers db)) (teachers_seq db)"

definition insert_teacher :: "string \<Rightarrow> string \<Rightarrow> database \<Rightarrow> sql_error + database" where
  "insert_teacher n s db =
     (if largest_id db \<ge> max_rowid then Inl (OtherError ''database or disk is full'')
      else if n \<in> set (map name (teachers db)) then Inl IntegrityError
      else
        let new_id = largest_id db + 1
        in Inr (db\<lparr>teachers := teachers db @ [\<lparr>teacher_id = new_id, name = n, subject = s\<rparr>],
                    teachers_seq := new_id\<rparr>))"

text \<open>\<open>DELETE FROM teachers WHERE name = ?\<close>: the row count and the store afterwards.\<close>

definition delete_teacher :: "string \<Rightarrow> database \<Rightarrow> nat \<times> database" where
  "delete_teacher n db =
     (length (filter (\<lambda>t. name t = n) (teachers db)),
      db\<lparr>teachers := filter (\<lambda>t. name t \<noteq> n) (teachers db)\<rparr>)"

definition quoted :: "string \<Rightarrow> string" where
  "quoted s = [CHR 0x27] @ s @ [CHR 0x27]"

definition add_error_message :: "string \<Rightarrow> sql_error \<Rightarrow> string" where
  "add_error_message n e =
     (case e of
        IntegrityError \<Rightarrow> ''Teacher '' @ quoted n @ '' already exists.''
      | OtherError msg \<Rightarrow> ''Error adding teacher: '' @ msg)"

text \<open>The two POST branches; each gives (success message, error message, store).\<close>

definition add_teacher ::
  "form \<Rightarrow> database \<Rightarrow> string option \<times> string option \<times> database" where
  "add_teacher frm db =
     (case (map_of frm ''name'', map_of frm ''subject'') of
        (Some raw_name, Some raw_subject) \<Rightarrow>
          let n = strip raw_name; s = strip raw_subject in
          if n = [] \<or> s = [] then (None, Some ''Teacher name and subject are required.'', db)
          else
            (case insert_teacher n s db of
               Inr db' \<Rightarrow> (Some (''Teacher '' @ quoted n @ '' added successfully!''), None, db')
             | Inl e \<Rightarrow> (None, Some (add_error_message n e), db))
      | _ \<Rightarrow> (None, None, db))"

definition remove_teacher ::
  "form \<Rightarrow> database \<Rightarrow> string option \<times> string option \<times> database" where
  "remove_teacher frm db =
     (case map_of frm ''delete_name'' of
        Some raw \<Rightarrow>
          let delete_name = strip raw in
          if delete_name = [] then (None, Some ''Teacher name to delete is required.'', db)
          else
            (case delete_teacher delete_name db of
               (rowcount, db') \<Rightarrow>
                 if rowcount > 0 then
                   (Some (''Teacher '' @ quoted delete_name @ '' deleted successfully!''), None, db')
                 else (None, Some (''Teacher '' @ quoted delete_name @ '' not found.''), db))
      | None \<Rightarrow> (None, None, db))"

datatype modify_response =
    ModifyRedirectLogin
  | ModifyPage (page_teachers: "(string \<times> string) list option")
               (page_success: "string option")
               (page_error: "string option")

text \<open>
  \<open>ModifyPage teachers success_message error_message\<close> is the rendered template with its
  arguments; the roster shown is \<open>SELECT name, subject FROM teachers ORDER BY name ASC\<close>.
\<close>

definition modify_teacher ::
  "bool \<Rightarrow> http_method \<Rightarrow> form \<Rightarrow> session \<Rightarrow> database \<Rightarrow> modify_response \<times> database" where
  "modify_teacher conn_ok method frm sess db =
     (if \<not> contains ''user'' sess then (ModifyRedirectLogin, db)
      else if \<not> conn_ok then (ModifyPage None None (Some ''Database connection failed.''), db)
      else
        (case (if method = POST then
                 (if contains ''name'' frm \<and> contains ''subject'' frm then add_teacher frm db
                  else if contains ''delete_name'' frm then remove_teacher frm db
                  else (None, None, db))
               else (None, None, db)) of
           (success_message, error_message, db') \<Rightarrow>
             (ModifyPage
                (Some (map (\<lambda>t. (name t, subject t)) (sort_key name (teachers db'))))
                success_message error_message,
              db')))"

section \<open>Route 4 (GET): the viewer\<close>

type_synonym grid = "(string \<times> string option list) list"

definition slot_warning :: "string \<Rightarrow> string \<Rightarrow> string" where
  "slot_warning slot_text class_text =
     ''Warning: Unexpected slot number '' @ slot_text @ '' for class '' @ class_text"

text \<open>
  The loop over the fetched rows.  The state is the dictionary
  \<open>last_generated_timetable_data\<close> and the lines printed so far; the first component of
  the result is the exception that ended the loop, if one did.

  \<open>1 <= slot <= 5\<close> compares numbers, and raises \<open>TypeError\<close> for a text or a blob.
  \<open>[slot - 1]\<close> is a list index only for an integer: for a real number within 1..5 it
  raises \<open>TypeError\<close>.  \<open>str_float\<close> is Python's text of a float, a parameter.
\<close>

fun place_rows ::
  "(real \<Rightarrow> string) \<Rightarrow> stored_row list \<Rightarrow> grid \<times> string list
     \<Rightarrow> py_error option \<times> grid \<times> string list" where
  "place_rows str_float [] (g, printed) = (None, g, printed)"
| "place_rows str_float (row # rows) (g, printed) =
     (let g1 = (if map_of g (class_name row) = None
                then AList.update (class_name row) (replicate 5 None) g else g)
      in case slot row of
           SqlInteger n \<Rightarrow>
             if 1 \<le> n \<and> n \<le> 5 then
               place_rows str_float rows
                 (AList.map_entry (class_name row)
                    (\<lambda>xs. xs[nat (n - 1) := Some (teacher_name row)]) g1,
                  printed)
             else place_rows str_float rows
                    (g1, printed @ [slot_warning (str_int n) (class_name row)])
         | SqlReal x \<Rightarrow>
             if 1 \<le> x \<and> x \<le> 5 then (Some TypeError, g1, printed)
             else place_rows str_float rows
                    (g1, printed @ [slot_warning (str_float x) (class_name row)])
         | SqlInfinity positive \<Rightarrow>
             place_rows str_float rows
               (g1, printed @ [slot_warning (if positive then ''inf'' else ''-inf'')
                                 (class_name row)])
         | SqlText t \<Rightarrow> (Some TypeError, g1, printed)
         | SqlBlob b \<Rightarrow> (Some TypeError, g1, printed))"

text \<open>
  \<open>ORDER BY class_name, slot\<close>: class names bytewise; among slots, numbers in numeric
  order come before texts, and texts before blobs.
\<close>

fun order_key :: "sql_value \<Rightarrow> nat \<times> (nat \<times> real) \<times> string" where
  "order_key (SqlInfinity False) = (0, (0, 0), [])"
| "order_key (SqlInteger n) = (0, (1, real_of_int n), [])"
| "order_key (SqlReal x) = (0, (1, x), [])"
| "order_key (SqlInfinity True) = (0, (2, 0), [])"
| "order_key (SqlText t) = (1, (0, 0), t)"
| "order_key (SqlBlob b) = (2, (0, 0), b)"

definition select_timetable :: "database \<Rightarrow> stored_row list" where
  "select_timetable db = sort_key (\<lambda>r. (class_name r, order_key (slot r))) (timetable db)"

datatype view_response =
    ViewRedirectLogin
  | TimetableError string
  | TimetablePage grid
  | ViewUncaught py_error

text \<open>
  \<open>ViewUncaught e\<close> is an exception leaving the handler: the request fails with status
  500.
\<close>

definition view_generate_timetable_page ::
  "(real \<Rightarrow> string) \<Rightarrow> bool \<Rightarrow> session \<Rightarrow> database \<Rightarrow> view_response \<times> string list" where
  "view_generate_timetable_page str_float conn_ok sess db =
     (if \<not> contains ''user'' sess then (ViewRedirectLogin, [])
      else if \<not> conn_ok then (TimetableError ''Database connection failed.'', [])
      else
        (case place_rows str_float (select_timetable db) ([], []) of
           (Some e, g, printed) \<Rightarrow> (ViewUncaught e, printed)
         | (None, g, printed) \<Rightarrow> (TimetablePage g, printed)))"

section \<open>Route 4 (POST): the generator\<close>

subsection \<open>The solver interface (ortools.sat.python.cp_model)\<close>

text \<open>
  A solver status is an integer; the five named constants have the values of OR-Tools'
  \<open>CpSolverStatus\<close>.  An integer variable has a position in its model, an inclusive
  interval \<open>[lb, ub]\<close> as its domain, and a name.  The model is the list of its variables
  and the list of its all-different constraints.  The solver is a parameter: from a model
  it gives a status and the value of every variable.
\<close>

type_synonym cp_status = int

definition UNKNOWN :: cp_status where "UNKNOWN = 0"
definition MODEL_INVALID :: cp_status where "MODEL_INVALID = 1"
definition FEASIBLE :: cp_status where "FEASIBLE = 2"
definition INFEASIBLE :: cp_status where "INFEASIBLE = 3"
definition OPTIMAL :: cp_status where "OPTIMAL = 4"

record intvar =
  var_index :: nat
  lb :: int
  ub :: int
  var_name :: string

record cp_model =
  variables :: "intvar list"
  all_different :: "intvar list list"

definition CpModel :: cp_model where
  "CpModel = \<lparr>variables = [], all_different = []\<rparr>"

definition NewIntVar :: "int \<Rightarrow> int \<Rightarrow> string \<Rightarrow> cp_model \<Rightarrow> intvar \<times> cp_model" where
  "NewIntVar l u nm m =
     (let v = \<lparr>var_index = length (variables m), lb = l, ub = u, var_name = nm\<rparr>
      in (v, m\<lparr>variables := variables m @ [v]\<rparr>))"

definition AddAllDifferent :: "intvar list \<Rightarrow> cp_model \<Rightarrow> cp_model" where
  "AddAllDifferent vs m = m\<lparr>all_different := all_different m @ [vs]\<rparr>"

type_synonym solver = "cp_model \<Rightarrow> cp_status \<times> (intvar \<Rightarrow> int)"

text \<open>What a solution of a model is: every value in its interval, every constraint met.\<close>

definition satisfies :: "cp_model \<Rightarrow> (intvar \<Rightarrow> int) \<Rightarrow> bool" where
  "satisfies m val =
     (list_all (\<lambda>v. lb v \<le> val v \<and> val v \<le> ub v) (variables m) \<and>
      list_all (\<lambda>vs. distinct (map val vs)) (all_different m))"

subsection \<open>The handler\<close>

definition classes :: "string list" where
  "classes = [''MCA I'', ''MCA II'', ''MSC I'', ''MSC II'']"

definition periods :: "int list" where
  "periods = [1, 2, 3, 4, 5]"

datatype generate_response =
    JsonError string nat
  | JsonTimetable "(string \<times> string list) list" string
  | Uncaught py_error

text \<open>
  \<open>JsonError msg code\<close> is \<open>jsonify({"error": msg}), code\<close>; \<open>JsonTimetable t msg\<close> is the
  success body with status 200; \<open>Uncaught e\<close> is an exception leaving the handler.
  The effects of a run on the solver library and on the store are recorded in order.
\<close>

datatype effect =
    SqlSelectTeachers
  | CpNewModel
  | CpNewIntVar intvar
  | CpAddAllDifferent "intvar list"
  | CpSolve cp_model
  | SqlDeleteTimetable
  | SqlInsertTimetable stored_row
  | SqlCommit

record gstate =
  model :: cp_model
  timetable_vars :: "((string \<times> int) \<times> intvar) list"
  display :: "(string \<times> string list) list"
  store :: database
  effects :: "effect list"

text \<open>
  Each loop of the handler is a function from the state to an optional early response
  (a \<open>return\<close> or an exception inside the loop) and the state reached.
\<close>

text \<open>Lines 259-261: one variable per class and period, over \<open>[min(ids), max(ids)]\<close>.\<close>

fun new_vars_class :: "string \<Rightarrow> int list \<Rightarrow> int list \<Rightarrow> gstate \<Rightarrow> generate_response option \<times> gstate" where
  "new_vars_class c [] ids st = (None, st)"
| "new_vars_class c (p # ps) ids st =
     (case py_min ids of
        Inl e \<Rightarrow> (Some (Uncaught e), st)
      | Inr lo \<Rightarrow>
          (case py_max ids of
             Inl e \<Rightarrow> (Some (Uncaught e), st)
           | Inr hi \<Rightarrow>
               (case NewIntVar lo hi (''c'' @ c @ ''_p'' @ str_int p) (model st) of
                  (v, m') \<Rightarrow>
                    new_vars_class c ps ids
                      (st\<lparr>model := m',
                          timetable_vars := AList.update (c, p) v (timetable_vars st),
                          effects := effects st @ [CpNewIntVar v]\<rparr>))))"

fun new_vars :: "string list \<Rightarrow> int list \<Rightarrow> gstate \<Rightarrow> generate_response option \<times> gstate" where
  "new_vars [] ids st = (None, st)"
| "new_vars (c # cs) ids st =
     (case new_vars_class c periods ids st of
        (Some r, st') \<Rightarrow> (Some r, st')
      | (None, st') \<Rightarrow> new_vars cs ids st')"

text \<open>The list comprehensions over \<open>timetable_vars[(class_name, period)]\<close>.\<close>

fun lookup_vars :: "((string \<times> int) \<times> intvar) list \<Rightarrow> (string \<times> int) list \<Rightarrow> py_error + intvar list" where
  "lookup_vars tv [] = Inr []"
| "lookup_vars tv (k # ks) =
     (case map_of tv k of
        None \<Rightarrow> Inl KeyError
      | Some v \<Rightarrow> (case lookup_vars tv ks of Inl e \<Rightarrow> Inl e | Inr vs \<Rightarrow> Inr (v # vs)))"

text \<open>Lines 265-270: per period, the classes' variables are all different.\<close>

fun period_constraints :: "int list \<Rightarrow> int list \<Rightarrow> gstate \<Rightarrow> generate_response option \<times> gstate" where
  "period_constraints [] ids st = (None, st)"
| "period_constraints (p # ps) ids st =
     (case lookup_vars (timetable_vars st) (map (\<lambda>c. (c, p)) classes) of
        Inl e \<Rightarrow> (Some (Uncaught e), st)
      | Inr assigned_teachers_in_period \<Rightarrow>
          if length (remdups ids) \<ge> length classes then
            period_constraints ps ids
              (st\<lparr>model := AddAllDifferent assigned_teachers_in_period (model st),
                  effects := effects st @ [CpAddAllDifferent assigned_teachers_in_period]\<rparr>)
          else
            (Some (JsonError
               ''Not enough unique teachers to assign a different teacher to each class for every period.''
               400), st))"

text \<open>Lines 273-278: per class, the periods' variables are all different.\<close>

fun class_constraints :: "string list \<Rightarrow> int list \<Rightarrow> gstate \<Rightarrow> generate_response option \<times> gstate" where
  "class_constraints [] ids st = (None, st)"
| "class_constraints (c # cs) ids st =
     (case lookup_vars (timetable_vars st) (map (\<lambda>p. (c, p)) periods) of
        Inl e \<Rightarrow> (Some (Uncaught e), st)
      | Inr class_teachers \<Rightarrow>
          if length (remdups ids) \<ge> length periods then
            class_constraints cs ids
              (st\<lparr>model := AddAllDifferent class_teachers (model st),
                  effects := effects st @ [CpAddAllDifferent class_teachers]\<rparr>)
          else
            (Some (JsonError
               (''Not enough unique teachers for class '' @ quoted c @
                '' to have a different teacher for each period.'')
               400), st))"

text \<open>Lines 256-278 together: the variables, then the two families of constraints.\<close>

definition build_model :: "int list \<Rightarrow> gstate \<Rightarrow> generate_response option \<times> gstate" where
  "build_model ids st =
     (case new_vars classes ids st of
        (Some r, st') \<Rightarrow> (Some r, st')
      | (None, st') \<Rightarrow>
          (case period_constraints periods ids st' of
             (Some r, st'') \<Rightarrow> (Some r, st'')
           | (None, st'') \<Rightarrow> class_constraints classes ids st''))"

text \<open>
  \<open>INSERT INTO timetable\<close> under \<open>UNIQUE(class_name, slot) ON CONFLICT REPLACE\<close>: a row
  with the same class and slot is removed before the new row is added.
\<close>

definition insert_timetable :: "stored_row \<Rightarrow> database \<Rightarrow> database" where
  "insert_timetable row db =
     db\<lparr>timetable :=
          filter (\<lambda>r. \<not> (class_name r = class_name row \<and> slot r = slot row)) (timetable db) @ [row]\<rparr>"

text \<open>Line 299: \<open>teachers_map.get(teacher_id, f"Unknown Teacher ID: {teacher_id}")\<close>.\<close>

definition get_teacher_name :: "(int \<times> string) list \<Rightarrow> int \<Rightarrow> string" where
  "get_teacher_name teachers_map tid =
     (case map_of teachers_map tid of
        Some n \<Rightarrow> n
      | None \<Rightarrow> ''Unknown Teacher ID: '' @ str_int tid)"

text \<open>Lines 295-303: read the solver's values, name the teachers, store the rows.\<close>

fun save_class ::
  "string \<Rightarrow> int list \<Rightarrow> (intvar \<Rightarrow> int) \<Rightarrow> (int \<times> string) list \<Rightarrow> gstate
     \<Rightarrow> generate_response option \<times> gstate" where
  "save_class c [] val teachers_map st = (None, st)"
| "save_class c (p # ps) val teachers_map st =
     (case map_of (timetable_vars st) (c, p) of
        None \<Rightarrow> (Some (Uncaught KeyError), st)
      | Some v \<Rightarrow>
          let tid = val v;
              tname = get_teacher_name teachers_map tid;
              row = \<lparr>class_name = c, slot = SqlInteger p, teacher_name = tname\<rparr>
          in save_class c ps val teachers_map
               (st\<lparr>display := AList.map_entry c (\<lambda>xs. xs @ [tname]) (display st),
                   store := insert_timetable row (store st),
                   effects := effects st @ [SqlInsertTimetable row]\<rparr>))"

fun save_classes ::
  "string list \<Rightarrow> (intvar \<Rightarrow> int) \<Rightarrow> (int \<times> string) list \<Rightarrow> gstate
     \<Rightarrow> generate_response option \<times> gstate" where
  "save_classes [] val teachers_map st = (None, st)"
| "save_classes (c # cs) val teachers_map st =
     (case save_class c periods val teachers_map (st\<lparr>display := AList.update c [] (display st)\<rparr>) of
        (Some r, st') \<Rightarrow> (Some r, st')
      | (None, st') \<Rightarrow> save_classes cs val teachers_map st')"

definition failure_message :: "cp_status \<Rightarrow> string" where
  "failure_message status =
     (if status = INFEASIBLE then
        ''The current set of teachers and classes makes it impossible to generate a timetable that satisfies all constraints. Please check the number of teachers or simplify constraints.''
      else if status = MODEL_INVALID then
        ''The timetable model itself is invalid. This indicates an issue with constraint formulation.''
      else if status = UNKNOWN then
        ''The solver could not determine a solution within the given time limit. Try increasing the time limit or simplifying the problem.''
      else ''An unexpected error occurred during timetable generation.'')"

text \<open>Lines 285-320: solve, then save or report.\<close>

definition solve_and_save ::
  "solver \<Rightarrow> bool \<Rightarrow> (int \<times> string) list \<Rightarrow> gstate \<Rightarrow> generate_response \<times> gstate" where
  "solve_and_save solve save_conn_ok teachers_map st =
     (case solve (model st) of
        (status, val) \<Rightarrow>
          let st1 = st\<lparr>effects := effects st @ [CpSolve (model st)]\<rparr> in
          if status = OPTIMAL \<or> status = FEASIBLE then
            if \<not> save_conn_ok then (JsonError ''Database connection failed for saving.'' 500, st1)
            else
              (case save_classes classes val teachers_map
                      (st1\<lparr>store := (store st1)\<lparr>timetable := []\<rparr>,
                           effects := effects st1 @ [SqlDeleteTimetable, SqlCommit]\<rparr>) of
                 (Some r, st2) \<Rightarrow> (r, st2)
               | (None, st2) \<Rightarrow>
                   (JsonTimetable (display st2) ''Timetable generated successfully!'',
                    st2\<lparr>effects := effects st2 @ [SqlCommit]\<rparr>))
          else (JsonError (failure_message status) 500, st1))"

text \<open>Line 250: \<open>{t['id']: t['name'] for t in teachers_data}\<close>.\<close>

definition dict_of_teachers :: "teacher list \<Rightarrow> (int \<times> string) list" where
  "dict_of_teachers teachers_data =
     fold (\<lambda>t m. AList.update (teacher_id t) (name t) m) teachers_data []"

text \<open>
  The handler.  \<open>conn_ok\<close> and \<open>save_conn_ok\<close> tell whether the first and the second
  \<open>connect_db\<close> return a connection.  The result is the response with the final state;
  its \<open>store\<close> is the store after the request and its \<open>effects\<close> what the run did.
\<close>

definition generate_timetable_process ::
  "solver \<Rightarrow> bool \<Rightarrow> bool \<Rightarrow> session \<Rightarrow> database \<Rightarrow> generate_response \<times> gstate" where
  "generate_timetable_process solve conn_ok save_conn_ok sess db =
     (let st0 = \<lparr>model = CpModel, timetable_vars = [], display = [], store = db, effects = []\<rparr> in
      if \<not> contains ''user'' sess then (JsonError ''Unauthorized'' 401, st0)
      else if \<not> conn_ok then (JsonError ''Database connection failed.'' 500, st0)
      else
        let teachers_data = teachers db;
            st1 = st0\<lparr>effects := [SqlSelectTeachers]\<rparr>
        in
        if teachers_data = [] then
          (JsonError ''No teachers registered. Please add teachers to generate a timetable.'' 400, st1)
        else
          let teachers_map = dict_of_teachers teachers_data;
              teacher_ids = map teacher_id teachers_data;
              st2 = st1\<lparr>effects := effects st1 @ [CpNewModel]\<rparr>
          in
          (case build_model teacher_ids st2 of
             (Some r, st3) \<Rightarrow> (r, st3)
           | (None, st3) \<Rightarrow> solve_and_save solve save_conn_ok teachers_map st3))"

text \<open>Kinds of effects.\<close>

fun builds_model :: "effect \<Rightarrow> bool" where
  "builds_model CpNewModel = True"
| "builds_model (CpNewIntVar v) = True"
| "builds_model (CpAddAllDifferent vs) = True"
| "builds_model e = False"

fun creates_variable :: "effect \<Rightarrow> bool" where
  "creates_variable (CpNewIntVar v) = True"
| "creates_variable e = False"

fun adds_constraint :: "effect \<Rightarrow> bool" where
  "adds_constraint (CpAddAllDifferent vs) = True"
| "adds_constraint e = False"

fun writes_timetable :: "effect \<Rightarrow> bool" where
  "writes_timetable SqlDeleteTimetable = True"
| "writes_timetable (SqlInsertTimetable row) = True"
| "writes_timetable e = False"

text \<open>The models handed to the solver in a run.\<close>

fun solver_inputs :: "effect list \<Rightarrow> cp_model list" where
  "solver_inputs [] = []"
| "solver_inputs (CpSolve m # es) = m # solver_inputs es"
| "solver_inputs (e # es) = solver_inputs es"

text \<open>The timetable rows a returned grid stands for: period \<open>i\<close> is position \<open>i\<close> of a class's list.\<close>

definition grid_rows :: "(string \<times> string list) list \<Rightarrow> stored_row list" where
  "grid_rows g =
     concat (map (\<lambda>(c, names).
        map (\<lambda>(i, n). \<lparr>class_name = c, slot = SqlInteger (int i), teacher_name = n\<rparr>)
          (enumerate 1 names)) g)"

section \<open>Route 5: the exporter\<close>

text \<open>
  \<open>DataFrame.pivot_table(index='class_name', columns='slot', values='teacher_name',
  aggfunc='first')\<close>: the index is the sorted distinct class names, the columns the sorted
  distinct slots, and a cell holds the teacher of the first row with that class and slot
  (empty when there is none).
\<close>

record pivot =
  index :: "string list"
  columns :: "int list"
  cells :: "string option list list"

definition pivot_table :: "frame_row list \<Rightarrow> pivot" where
  "pivot_table df =
     (let idx = sort (remdups (map class_name df));
          cols = sort (remdups (map slot df))
      in \<lparr>index = idx, columns = cols,
          cells = map (\<lambda>c. map (\<lambda>s. map_option teacher_name
                                        (find (\<lambda>r. class_name r = c \<and> slot r = s) df)) cols) idx\<rparr>)"

text \<open>
  The sheet written: the columns renamed to \<open>Period n\<close>, the index turned into a first
  column named \<open>Class\<close>.
\<close>

record sheet =
  sheet_columns :: "string list"
  sheet_rows :: "string option list list"

definition to_sheet :: "pivot \<Rightarrow> sheet" where
  "to_sheet pv =
     \<lparr>sheet_columns = ''Class'' # map (\<lambda>col. ''Period '' @ str_int col) (columns pv),
      sheet_rows = map (\<lambda>(c, row). Some c # row) (zip (index pv) (cells pv))\<rparr>"

datatype export_response =
    ExportRedirectLogin
  | ExportText string nat

text \<open>
  The frame read from the store, when every slot in it is an integer.
\<close>

fun integer_frame :: "stored_row list \<Rightarrow> frame_row list option" where
  "integer_frame [] = Some []"
| "integer_frame (r # rs) =
     (case slot r of
        SqlInteger n \<Rightarrow>
          map_option
            ((#) \<lparr>class_name = class_name r, slot = n, teacher_name = teacher_name r\<rparr>)
            (integer_frame rs)
      | _ \<Rightarrow> None)"

text \<open>
  \<open>files\<close> maps file names to sheets.  \<open>write_error\<close> is the text of the exception
  \<open>to_excel\<close> raises, if it raises one.  \<open>pandas_other\<close> is what pandas makes of a frame
  in which some slot is not an integer: the text of an exception (caught at line 407) or
  a sheet; the pivot of such frames is not modelled.
\<close>

definition export_timetable ::
  "(stored_row list \<Rightarrow> string + sheet) \<Rightarrow> string option \<Rightarrow> bool \<Rightarrow> session \<Rightarrow> database
     \<Rightarrow> (string \<times> sheet) list \<Rightarrow> export_response \<times> (string \<times> sheet) list" where
  "export_timetable pandas_other write_error conn_ok sess db files =
     (if \<not> contains ''user'' sess then (ExportRedirectLogin, files)
      else if \<not> conn_ok then (ExportText ''Database connection failed for export.'' 500, files)
      else
        let df = select_timetable db in
        if df = [] then (ExportText ''No timetable data to export.'' 404, files)
        else
          (case (case integer_frame df of
                   Some frame \<Rightarrow> Inr (to_sheet (pivot_table frame))
                 | None \<Rightarrow> pandas_other df) of
             Inl e \<Rightarrow> (ExportText (''Error exporting timetable: '' @ e) 500, files)
           | Inr pivot_df \<Rightarrow>
               let excel_filename = ''timetable.xlsx'' in
               (case write_error of
                  Some e \<Rightarrow> (ExportText (''Error exporting timetable: '' @ e) 500, files)
                | None \<Rightarrow>
                    (ExportText (''Timetable exported successfully to '' @ excel_filename @ ''!'')
                       200,
                     AList.update excel_filename pivot_df files))))"

section \<open>Reading the results\<close>

text \<open>
  \<open>cell g c i\<close> is \<open>g[c][i]\<close> of the viewer's dictionary, empty where the class or the
  position is missing.  \<open>slot_position\<close> is the position \<open>slot - 1\<close> of an integer slot
  within 1..5.  \<open>tolerated\<close> tells the slots on which the loop of the viewer goes on:
  the integers, and the numbers that are not within 1..5.  \<open>slot_text\<close> is the text of a
  number in a warning.
\<close>

definition cell :: "grid \<Rightarrow> string \<Rightarrow> nat \<Rightarrow> string option" where
  "cell g c i =
     (case map_of g c of None \<Rightarrow> None | Some xs \<Rightarrow> if i < length xs then xs ! i else None)"

fun slot_position :: "sql_value \<Rightarrow> nat option" where
  "slot_position (SqlInteger n) = (if 1 \<le> n \<and> n \<le> 5 then Some (nat (n - 1)) else None)"
| "slot_position v = None"

fun tolerated :: "sql_value \<Rightarrow> bool" where
  "tolerated (SqlInteger n) = True"
| "tolerated (SqlReal x) = (\<not> (1 \<le> x \<and> x \<le> 5))"
| "tolerated (SqlInfinity positive) = True"
| "tolerated (SqlText t) = False"
| "tolerated (SqlBlob b) = False"

fun slot_text :: "(real \<Rightarrow> string) \<Rightarrow> sql_value \<Rightarrow> string" where
  "slot_text str_float (SqlInteger n) = str_int n"
| "slot_text str_float (SqlReal x) = str_float x"
| "slot_text str_float (SqlInfinity positive) = (if positive then ''inf'' else ''-inf'')"
| "slot_text str_float (SqlText t) = t"
| "slot_text str_float (SqlBlob b) = b"

definition row_warning :: "(real \<Rightarrow> string) \<Rightarrow> stored_row \<Rightarrow> string" where
  "row_warning str_float r = slot_warning (slot_text str_float (slot r)) (class_name r)"

text \<open>The stored row a row of an integer frame comes from.\<close>

definition stored_of_frame :: "frame_row \<Rightarrow> stored_row" where
  "stored_of_frame f =
     \<lparr>class_name = class_name f, slot = SqlInteger (slot f), teacher_name = teacher_name f\<rparr>"

definition rows_of_five :: "grid \<Rightarrow> bool" where
  "rows_of_five g = (\<forall>c xs. map_of g c = Some xs \<longrightarrow> length xs = 5)"

section \<open>The model of the generator, written out\<close>

text \<open>
  The handler's loops run over 4 classes and 5 periods, so the model it builds from a
  non-empty roster has a fixed shape; only the bounds \<open>lo = min(ids)\<close> and
  \<open>hi = max(ids)\<close> vary.  Variable number \<open>5 i + j\<close> belongs to class \<open>i\<close> and period
  \<open>j + 1\<close>.  These definitions name that shape; the lemmas \<open>new_vars_eval\<close>,
  \<open>period_constraints_eval\<close> and \<open>class_constraints_eval\<close> show that the handler's loops
  produce it.
\<close>

definition var_at :: "int \<Rightarrow> int \<Rightarrow> nat \<Rightarrow> intvar" where
  "var_at lo hi k =
     \<lparr>var_index = k, lb = lo, ub = hi,
      var_name = ''c'' @ classes ! (k div 5) @ ''_p'' @ str_int (periods ! (k mod 5))\<rparr>"

definition all_vars :: "int \<Rightarrow> int \<Rightarrow> intvar list" where
  "all_vars lo hi = map (var_at lo hi) [0..<20]"

definition all_keys :: "(string \<times> int) list" where
  "all_keys = List.product classes periods"

definition full_tvars :: "int \<Rightarrow> int \<Rightarrow> ((string \<times> int) \<times> intvar) list" where
  "full_tvars lo hi = zip all_keys (all_vars lo hi)"

definition period_groups :: "int \<Rightarrow> int \<Rightarrow> intvar list list" where
  "period_groups lo hi = map (\<lambda>j. map (\<lambda>i. var_at lo hi (5 * i + j)) [0..<4]) [0..<5]"

definition class_groups :: "int \<Rightarrow> int \<Rightarrow> intvar list list" where
  "class_groups lo hi = map (\<lambda>i. map (\<lambda>j. var_at lo hi (5 * i + j)) [0..<5]) [0..<4]"

definition full_model :: "int \<Rightarrow> int \<Rightarrow> cp_model" where
  "full_model lo hi =
     \<lparr>variables = all_vars lo hi, all_different = period_groups lo hi @ class_groups lo hi\<rparr>"

text \<open>The states of the handler: at its start, and after each of its three loops.\<close>

definition start_state :: "database \<Rightarrow> effect list \<Rightarrow> gstate" where
  "start_state db es =
     \<lparr>model = CpModel, timetable_vars = [], display = [], store = db, effects = es\<rparr>"

definition vars_state :: "int \<Rightarrow> int \<Rightarrow> database \<Rightarrow> effect list \<Rightarrow> gstate" where
  "vars_state lo hi db es =
     \<lparr>model = \<lparr>variables = all_vars lo hi, all_different = []\<rparr>,
      timetable_vars = full_tvars lo hi, display = [], store = db,
      effects = es @ map CpNewIntVar (all_vars lo hi)\<rparr>"

definition periods_state :: "int \<Rightarrow> int \<Rightarrow> database \<Rightarrow> effect list \<Rightarrow> gstate" where
  "periods_state lo hi db es =
     \<lparr>model = \<lparr>variables = all_vars lo hi, all_different = period_groups lo hi\<rparr>,
      timetable_vars = full_tvars lo hi, display = [], store = db,
      effects = es @ map CpNewIntVar (all_vars lo hi)
                   @ map CpAddAllDifferent (period_groups lo hi)\<rparr>"

definition built_effects :: "int \<Rightarrow> int \<Rightarrow> effect list" where
  "built_effects lo hi =
     [SqlSelectTeachers, CpNewModel] @ map CpNewIntVar (all_vars lo hi)
       @ map CpAddAllDifferent (period_groups lo hi @ class_groups lo hi)"

definition built_state :: "int \<Rightarrow> int \<Rightarrow> database \<Rightarrow> gstate" where
  "built_state lo hi db =
     \<lparr>model = full_model lo hi, timetable_vars = full_tvars lo hi, display = [], store = db,
      effects = built_effects lo hi\<rparr>"

text \<open>The grid shown for the solver's values: the name looked up for each variable.\<close>

definition shown ::
  "int \<Rightarrow> int \<Rightarrow> (intvar \<Rightarrow> int) \<Rightarrow> (int \<times> string) list \<Rightarrow> (string \<times> string list) list" where
  "shown lo hi val tm =
     map (\<lambda>i. (classes ! i,
               map (\<lambda>j. get_teacher_name tm (val (var_at lo hi (5 * i + j)))) [0..<5]))
       [0..<4]"

section \<open>Example inputs\<close>

text \<open>A session after login, and a password check that compares the stored text.\<close>

definition admin_session :: session where
  "admin_session = [(''user'', ''admin'')]"

definition plain_check :: "string \<Rightarrow> string \<Rightarrow> bool" where
  "plain_check h p = (h = p)"

definition admin_users :: "user list" where
  "admin_users = [\<lparr>user_id = 1, username = ''admin'', password = ''secret''\<rparr>]"

text \<open>
  A roster of five teachers whose ids are 1, 2, 4, 5, 6: six teachers were added and the
  third was deleted.  \<open>alias_roster\<close> is the same with a first teacher whose name has the
  form of the fallback label.
\<close>

definition gap_roster :: "teacher list" where
  "gap_roster =
     [\<lparr>teacher_id = 1, name = ''Asha'', subject = ''Maths''\<rparr>,
      \<lparr>teacher_id = 2, name = ''Bala'', subject = ''Physics''\<rparr>,
      \<lparr>teacher_id = 4, name = ''Dev'', subject = ''Chemistry''\<rparr>,
      \<lparr>teacher_id = 5, name = ''Esha'', subject = ''Biology''\<rparr>,
      \<lparr>teacher_id = 6, name = ''Farid'', subject = ''History''\<rparr>]"

definition alias_roster :: "teacher list" where
  "alias_roster =
     [\<lparr>teacher_id = 1, name = ''Unknown Teacher ID: 3'', subject = ''Maths''\<rparr>,
      \<lparr>teacher_id = 2, name = ''Bala'', subject = ''Physics''\<rparr>,
      \<lparr>teacher_id = 4, name = ''Dev'', subject = ''Chemistry''\<rparr>,
      \<lparr>teacher_id = 5, name = ''Esha'', subject = ''Biology''\<rparr>,
      \<lparr>teacher_id = 6, name = ''Farid'', subject = ''History''\<rparr>]"

definition full_roster :: "teacher list" where
  "full_roster =
     [\<lparr>teacher_id = 1, name = ''Asha'', subject = ''Maths''\<rparr>,
      \<lparr>teacher_id = 2, name = ''Bala'', subject = ''Physics''\<rparr>,
      \<lparr>teacher_id = 3, name = ''Chitra'', subject = ''English''\<rparr>,
      \<lparr>teacher_id = 4, name = ''Dev'', subject = ''Chemistry''\<rparr>,
      \<lparr>teacher_id = 5, name = ''Esha'', subject = ''Biology''\<rparr>]"

definition db_with :: "teacher list \<Rightarrow> stored_row list \<Rightarrow> database" where
  "db_with ts rows = \<lparr>users = admin_users, teachers = ts, teachers_seq = 6, timetable = rows\<rparr>"

definition stale_rows :: "stored_row list" where
  "stale_rows =
     [\<lparr>class_name = ''MCA I'', slot = SqlInteger 1, teacher_name = ''Gita''\<rparr>,
      \<lparr>class_name = ''BCA I'', slot = SqlInteger 7, teacher_name = ''Hari''\<rparr>]"

text \<open>
  Rows written by other means than the application: a slot that is a text, a slot that is
  the number 2.5, and slots that are numbers outside 1..5.
\<close>

definition text_slot_rows :: "stored_row list" where
  "text_slot_rows = [\<lparr>class_name = ''MCA I'', slot = SqlText ''abc'', teacher_name = ''Gita''\<rparr>]"

definition real_slot_rows :: "stored_row list" where
  "real_slot_rows = [\<lparr>class_name = ''MCA I'', slot = SqlReal (5 / 2), teacher_name = ''Gita''\<rparr>]"

definition outside_rows :: "stored_row list" where
  "outside_rows =
     [\<lparr>class_name = ''MCA I'', slot = SqlInteger 1, teacher_name = ''Gita''\<rparr>,
      \<lparr>class_name = ''MCA I'', slot = SqlReal (15 / 2), teacher_name = ''Hari''\<rparr>,
      \<lparr>class_name = ''BCA I'', slot = SqlInteger 7, teacher_name = ''Indu''\<rparr>]"

text \<open>
  A text for floats that is right on 7.5, and an answer of pandas for frames with a
  non-integer slot; both only fill the parameters of the examples.
\<close>

definition float_text :: "real \<Rightarrow> string" where
  "float_text x = (if x = 15 / 2 then ''7.5'' else ''2.5'')"

definition pandas_refuses :: "stored_row list \<Rightarrow> string + sheet" where
  "pandas_refuses df = Inl ''unorderable slot values''"

text \<open>A store whose AUTOINCREMENT counter has reached the largest id.\<close>

definition exhausted_db :: database where
  "exhausted_db =
     \<lparr>users = admin_users, teachers = full_roster, teachers_seq = max_rowid, timetable = []\<rparr>"

text \<open>
  A solver answer: class number \<open>i\<close> (from 0) in period \<open>j\<close> (from 0) gets the value
  \<open>(i + j) mod 5 + 1\<close>; variable \<open>5 i + j\<close> is the one of that class and period.
  \<open>fixed_solver s\<close> answers every model with status \<open>s\<close> and these values.
\<close>

definition cyclic_values :: "intvar \<Rightarrow> int" where
  "cyclic_values v = int ((var_index v div 5 + var_index v mod 5) mod 5) + 1"

definition fixed_solver :: "cp_status \<Rightarrow> solver" where
  "fixed_solver s m = (s, cyclic_values)"

text \<open>Rosters of one and of four teachers.\<close>

definition single_roster :: "teacher list" where
  "single_roster = [\<lparr>teacher_id = 1, name = ''Asha'', subject = ''Maths''\<rparr>]"

definition four_roster :: "teacher list" where
  "four_roster =
     [\<lparr>teacher_id = 1, name = ''Asha'', subject = ''Maths''\<rparr>,
      \<lparr>teacher_id = 2, name = ''Bala'', subject = ''Physics''\<rparr>,
      \<lparr>teacher_id = 3, name = ''Chitra'', subject = ''English''\<rparr>,
      \<lparr>teacher_id = 4, name = ''Dev'', subject = ''Chemistry''\<rparr>]"

text \<open>
  How the roster with ids 1, 2, 4, 5, 6 comes about: six add requests and one delete
  request, sent to \<open>modify_teacher\<close> starting from an empty teachers table.
\<close>

definition fresh_db :: database where
  "fresh_db = \<lparr>users = admin_users, teachers = [], teachers_seq = 0, timetable = []\<rparr>"

definition roster_requests :: "form list" where
  "roster_requests =
     [[(''name'', ''Asha''), (''subject'', ''Maths'')],
      [(''name'', ''Bala''), (''subject'', ''Physics'')],
      [(''name'', ''Chitra''), (''subject'', ''English'')],
      [(''name'', ''Dev''), (''subject'', ''Chemistry'')],
      [(''name'', ''Esha''), (''subject'', ''Biology'')],
      [(''name'', ''Farid''), (''subject'', ''History'')],
      [(''delete_name'', ''Chitra'')]]"

definition post_all :: "form list \<Rightarrow> database \<Rightarrow> database" where
  "post_all frms db = fold (\<lambda>frm d. snd (modify_teacher True POST frm admin_session d)) frms db"

section \<open>Properties\<close>

subsection \<open>The generator on an empty roster\<close>

text \<open>
  C10.  With a session and a connection, an empty roster is answered by the
  "No teachers registered" error with status 400; the only effect of the run is the
  \<open>SELECT\<close> on the teachers: no model and no variable has been created.  \<open>min\<close> and
  \<open>max\<close> of the (empty) list of ids, which would raise \<open>ValueError\<close>, are not reached.
  The message differs from every other error message of the handler.
\<close>

theorem empty_roster_rejected:
  assumes "contains ''user'' sess" and "conn_ok" and "teachers db = []"
  shows "generate_timetable_process solve conn_ok save_conn_ok sess db =
           (JsonError ''No teachers registered. Please add teachers to generate a timetable.'' 400,
            \<lparr>model = CpModel, timetable_vars = [], display = [], store = db,
             effects = [SqlSelectTeachers]\<rparr>)
         \<and> py_min (map teacher_id (teachers db)) = Inl ValueError
         \<and> py_max (map teacher_id (teachers db)) = Inl ValueError
         \<and> ''No teachers registered. Please add teachers to generate a timetable.''
              \<notin> {''Unauthorized'', ''Database connection failed.'',
                  ''Not enough unique teachers to assign a different teacher to each class for every period.'',
                  ''Database connection failed for saving.''}
         \<and> (\<forall>c. ''No teachers registered. Please add teachers to generate a timetable.''
                  \<noteq> ''Not enough unique teachers for class '' @ quoted c @
                       '' to have a different teacher for each period.'')
         \<and> (\<forall>s. ''No teachers registered. Please add teachers to generate a timetable.''
                  \<noteq> failure_message s)"
  using assms by (simp add: generate_timetable_process_def failure_message_def)

theorem empty_roster_rejected_witness:
  "contains ''user'' admin_session \<and> teachers (db_with [] stale_rows) = [] \<and>
   generate_timetable_process (fixed_solver FEASIBLE) True True admin_session (db_with [] stale_rows) =
     (JsonError ''No teachers registered. Please add teachers to generate a timetable.'' 400,
      \<lparr>model = CpModel, timetable_vars = [], display = [], store = db_with [] stale_rows,
       effects = [SqlSelectTeachers]\<rparr>)"
proof -
  have a: "contains ''user'' admin_session"
    by (simp add: contains_def admin_session_def)
  have b: "teachers (db_with [] stale_rows) = []"
    by (simp add: db_with_def)
  show ?thesis
    using empty_roster_rejected [OF a TrueI b, of "fixed_solver FEASIBLE" True] a b by simp
qed

subsection \<open>Login\<close>

text \<open>
  C6, as stated, fails: an attempt with a missing field gets the message
  "Username and password are required.", while an unknown user and a wrong password get
  "Invalid Credentials.".
\<close>

theorem login_missing_field_counterexample:
  "fst (login plain_check True POST [(''username'', ''admin'')] [] (db_with [] []))
     = LoginPage (Some ''Username and password are required.'')
   \<and> fst (login plain_check True POST [(''username'', ''ghost''), (''password'', ''secret'')] []
            (db_with [] []))
     = LoginPage (Some ''Invalid Credentials.'')
   \<and> fst (login plain_check True POST [(''username'', ''admin''), (''password'', ''wrong'')] []
            (db_with [] []))
     = LoginPage (Some ''Invalid Credentials.'')
   \<and> ''Username and password are required.'' \<noteq> ''Invalid Credentials.''"
  by (simp add: login_def db_with_def admin_users_def plain_check_def)

text \<open>
  C6, amended.  With a connection, a POST with an absent or empty field is answered by
  "Username and password are required." and leaves the session as it was.  With both
  fields non-empty, an unknown username and a wrong password give the same response,
  "Invalid Credentials.", and leave the session as it was; a password matching the stored
  hash redirects to the dashboard with \<open>session['user']\<close> set to the username.
\<close>

theorem login_outcomes:
  assumes "conn_ok"
  shows "(map_of frm ''username'' \<in> {None, Some []} \<or> map_of frm ''password'' \<in> {None, Some []}
            \<longrightarrow> login chk conn_ok POST frm sess db
                  = (LoginPage (Some ''Username and password are required.''), sess))
       \<and> (map_of frm ''username'' = Some u \<and> map_of frm ''password'' = Some p \<and> u \<noteq> [] \<and> p \<noteq> []
            \<longrightarrow> (case find (\<lambda>x. username x = u) (users db) of
                    None \<Rightarrow> login chk conn_ok POST frm sess db
                              = (LoginPage (Some ''Invalid Credentials.''), sess)
                  | Some x \<Rightarrow>
                      if chk (password x) p
                      then fst (login chk conn_ok POST frm sess db) = RedirectDashboard
                         \<and> map_of (snd (login chk conn_ok POST frm sess db)) ''user'' = Some u
                      else login chk conn_ok POST frm sess db
                              = (LoginPage (Some ''Invalid Credentials.''), sess)))"
  using assms
  by (auto simp: login_def update_conv' split: option.splits)

theorem login_outcomes_witness:
  "login plain_check True POST [(''username'', ''admin'')] [] (db_with [] [])
     = (LoginPage (Some ''Username and password are required.''), [])
   \<and> login plain_check True POST [(''username'', ''ghost''), (''password'', ''secret'')] []
        (db_with [] [])
     = (LoginPage (Some ''Invalid Credentials.''), [])
   \<and> login plain_check True POST [(''username'', ''admin''), (''password'', ''wrong'')] []
        (db_with [] [])
     = (LoginPage (Some ''Invalid Credentials.''), [])
   \<and> fst (login plain_check True POST [(''username'', ''admin''), (''password'', ''secret'')] []
        (db_with [] [])) = RedirectDashboard
   \<and> map_of (snd (login plain_check True POST [(''username'', ''admin''), (''password'', ''secret'')] []
        (db_with [] []))) ''user'' = Some ''admin''"
  using login_outcomes [OF TrueI, of "[(''username'', ''admin'')]" plain_check "[]" "db_with [] []"
          "''admin''" "''secret''"]
        login_outcomes [OF TrueI, of "[(''username'', ''ghost''), (''password'', ''secret'')]"
          plain_check "[]" "db_with [] []" "''ghost''" "''secret''"]
        login_outcomes [OF TrueI, of "[(''username'', ''admin''), (''password'', ''wrong'')]"
          plain_check "[]" "db_with [] []" "''admin''" "''wrong''"]
        login_outcomes [OF TrueI, of "[(''username'', ''admin''), (''password'', ''secret'')]"
          plain_check "[]" "db_with [] []" "''admin''" "''secret''"]
  by (simp add: db_with_def admin_users_def plain_check_def)


subsection \<open>Adding a teacher whose name is taken\<close>

text \<open>
  C7.  With a session and a connection, take an add request that passes the input check
  (trimmed name and trimmed subject both non-empty) and whose trimmed name is in the
  roster, on a table that has not used up its ids.  The answer is
  "Teacher '<name>' already exists." and the store is as it was.  That message differs
  from the message of any other database error and from the input check's.
\<close>

theorem duplicate_teacher_rejected:
  assumes "contains ''user'' sess" and "conn_ok"
    and "map_of frm ''name'' = Some raw_name" and "map_of frm ''subject'' = Some raw_subject"
    and "strip raw_name \<noteq> []" and "strip raw_subject \<noteq> []"
    and "strip raw_name \<in> set (map name (teachers db))"
    and "largest_id db < max_rowid"
  shows "modify_teacher conn_ok POST frm sess db =
           (ModifyPage (Some (map (\<lambda>t. (name t, subject t)) (sort_key name (teachers db))))
              None (Some (''Teacher '' @ quoted (strip raw_name) @ '' already exists.'')), db)
         \<and> (\<forall>e. ''Teacher '' @ quoted (strip raw_name) @ '' already exists.''
                  \<noteq> add_error_message (strip raw_name) (OtherError e))
         \<and> ''Teacher '' @ quoted (strip raw_name) @ '' already exists.''
              \<noteq> ''Teacher name and subject are required.''"
  using assms
  by (simp add: modify_teacher_def contains_def add_teacher_def insert_teacher_def
        add_error_message_def quoted_def)

theorem duplicate_teacher_rejected_witness:
  "contains ''user'' admin_session
   \<and> strip '' Asha '' = ''Asha'' \<and> strip ''Art'' = ''Art''
   \<and> ''Asha'' \<in> set (map name (teachers (db_with full_roster [])))
   \<and> largest_id (db_with full_roster []) < max_rowid
   \<and> page_error (fst (modify_teacher True POST [(''name'', '' Asha ''), (''subject'', ''Art'')]
                          admin_session (db_with full_roster [])))
       = Some (''Teacher '' @ quoted ''Asha'' @ '' already exists.'')
   \<and> snd (modify_teacher True POST [(''name'', '' Asha ''), (''subject'', ''Art'')]
             admin_session (db_with full_roster [])) = db_with full_roster []"
proof -
  have s: "strip '' Asha '' = ''Asha''" "strip ''Art'' = ''Art''"
    by (simp_all add: strip_def isspace_def whitespace_def)
  have a: "contains ''user'' admin_session"
    by (simp add: contains_def admin_session_def)
  have m: "map_of [(''name'', '' Asha ''), (''subject'', ''Art'')] ''name'' = Some '' Asha ''"
          "map_of [(''name'', '' Asha ''), (''subject'', ''Art'')] ''subject'' = Some ''Art''"
    by simp_all
  have n: "strip '' Asha '' \<noteq> []" "strip ''Art'' \<noteq> []"
    by (simp_all add: s)
  have d: "strip '' Asha '' \<in> set (map name (teachers (db_with full_roster [])))"
    by (simp add: s db_with_def full_roster_def)
  have l: "largest_id (db_with full_roster []) < max_rowid"
    by (simp add: largest_id_def max_rowid_def db_with_def full_roster_def)
  show ?thesis
    using duplicate_teacher_rejected [OF a TrueI m n d l] a s d l by simp
qed

text \<open>
  Two requests the theorem leaves aside, and what the handler answers.  A request with
  a blank subject is stopped by the input check, before any insert, whether the name is
  taken or not.  On a table whose ids are used up the insert fails before the name is
  looked at.  In both the store is as it was.
\<close>

lemma blank_subject_stopped_by_input_check:
  "modify_teacher True POST [(''name'', '' Asha ''), (''subject'', '' '')]
     admin_session (db_with full_roster [])
   = (ModifyPage (Some (map (\<lambda>t. (name t, subject t))
                          (sort_key name (teachers (db_with full_roster [])))))
        None (Some ''Teacher name and subject are required.''),
      db_with full_roster [])"
  by (simp add: modify_teacher_def contains_def admin_session_def add_teacher_def strip_def
        isspace_def whitespace_def db_with_def)

lemma exhausted_ids_reported:
  "page_error (fst (modify_teacher True POST [(''name'', ''Asha''), (''subject'', ''Art'')]
                      admin_session exhausted_db))
     = Some ''Error adding teacher: database or disk is full''
   \<and> snd (modify_teacher True POST [(''name'', ''Asha''), (''subject'', ''Art'')]
            admin_session exhausted_db) = exhausted_db"
  by (simp add: modify_teacher_def contains_def admin_session_def add_teacher_def strip_def
        isspace_def whitespace_def exhausted_db_def insert_teacher_def largest_id_def
        max_rowid_def full_roster_def add_error_message_def)

subsection \<open>The viewer\<close>

lemma find_snoc:
  "find P (xs @ [x]) = (case find P xs of None \<Rightarrow> (if P x then Some x else None) | Some y \<Rightarrow> Some y)"
  by (induction xs) auto

lemma find_SomeD: "find P xs = Some x \<Longrightarrow> P x \<and> x \<in> set xs"
  by (induction xs) (auto split: if_splits)

lemma rows_of_five_Nil: "rows_of_five []"
  by (simp add: rows_of_five_def)

text \<open>One turn of the loop on a row whose slot is tolerated, and on one whose slot is not.\<close>

lemma place_rows_step:
  assumes "tolerated (slot r)"
  shows "place_rows sf (r # rows) (g, p) =
           (let g1 = (if map_of g (class_name r) = None
                      then AList.update (class_name r) (replicate 5 None) g else g)
            in case slot_position (slot r) of
                 Some i \<Rightarrow>
                   place_rows sf rows
                     (AList.map_entry (class_name r) (\<lambda>xs. xs[i := Some (teacher_name r)]) g1, p)
               | None \<Rightarrow> place_rows sf rows (g1, p @ [row_warning sf r]))"
  using assms by (cases "slot r") (auto simp: Let_def row_warning_def)

lemma place_rows_stop:
  assumes "\<not> tolerated (slot r)"
  shows "fst (place_rows sf (r # rows) (g, p)) = Some TypeError"
  using assms by (cases "slot r") (auto simp: Let_def)

lemma place_rows_raises:
  assumes "\<exists>r \<in> set rows. \<not> tolerated (slot r)"
  shows "fst (place_rows sf rows (g, p)) = Some TypeError"
  using assms
proof (induction rows arbitrary: g p)
  case Nil
  then show ?case by simp
next
  case (Cons r rows)
  show ?case
  proof (cases "tolerated (slot r)")
    case False
    then show ?thesis by (rule place_rows_stop)
  next
    case True
    with Cons.prems have rest: "\<exists>r \<in> set rows. \<not> tolerated (slot r)" by auto
    show ?thesis
      by (cases "slot_position (slot r)")
         (simp_all add: place_rows_step [OF True] Let_def Cons.IH [OF rest] del: place_rows.simps)
  qed
qed

lemma place_rows_returns:
  assumes "\<forall>r \<in> set rows. tolerated (slot r)"
  shows "fst (place_rows sf rows (g, p)) = None"
  using assms
proof (induction rows arbitrary: g p)
  case Nil
  then show ?case by simp
next
  case (Cons r rows)
  then have t: "tolerated (slot r)" and rest: "\<forall>r \<in> set rows. tolerated (slot r)"
    by simp_all
  show ?case
    by (cases "slot_position (slot r)")
       (simp_all add: place_rows_step [OF t] Let_def Cons.IH [OF rest] del: place_rows.simps)
qed

lemma place_rows_printed:
  assumes "\<forall>r \<in> set rows. tolerated (slot r)"
  shows "snd (snd (place_rows sf rows (g, p))) =
           p @ map (row_warning sf) (filter (\<lambda>r. slot_position (slot r) = None) rows)"
  using assms
proof (induction rows arbitrary: g p)
  case Nil
  then show ?case by simp
next
  case (Cons r rows)
  then have t: "tolerated (slot r)" and rest: "\<forall>r \<in> set rows. tolerated (slot r)"
    by simp_all
  show ?case
    by (cases "slot_position (slot r)")
       (simp_all add: place_rows_step [OF t] Let_def Cons.IH [OF rest] del: place_rows.simps)
qed

lemma place_rows_five:
  assumes "\<forall>r \<in> set rows. tolerated (slot r)" and "rows_of_five g"
  shows "rows_of_five (fst (snd (place_rows sf rows (g, p))))"
  using assms
proof (induction rows arbitrary: g p)
  case Nil
  then show ?case by simp
next
  case (Cons r rows)
  then have t: "tolerated (slot r)" and rest: "\<forall>r \<in> set rows. tolerated (slot r)"
    by simp_all
  let ?g1 = "if map_of g (class_name r) = None
             then AList.update (class_name r) (replicate 5 None) g else g"
  have g1: "rows_of_five ?g1"
    using Cons.prems(2) by (auto simp: rows_of_five_def update_conv')
  have g2: "rows_of_five (AList.map_entry (class_name r) (\<lambda>xs. xs[i := Some (teacher_name r)]) ?g1)"
    for i
    using g1 unfolding rows_of_five_def map_of_map_entry by (auto split: option.splits)
  show ?case
    using Cons.IH [OF rest g1] Cons.IH [OF rest g2]
    by (cases "slot_position (slot r)") (simp_all add: place_rows_step [OF t] Let_def del: place_rows.simps)
qed

lemma place_rows_keys:
  assumes "\<forall>r \<in> set rows. tolerated (slot r)"
  shows "fst ` set (fst (snd (place_rows sf rows (g, p)))) = fst ` set g \<union> class_name ` set rows"
  using assms
proof (induction rows arbitrary: g p)
  case Nil
  then show ?case by simp
next
  case (Cons r rows)
  then have t: "tolerated (slot r)" and rest: "\<forall>r \<in> set rows. tolerated (slot r)"
    by simp_all
  have k: "map_of g (class_name r) \<noteq> None \<Longrightarrow> class_name r \<in> fst ` set g"
    by (simp add: map_of_eq_None_iff)
  show ?case
  proof (cases "map_of g (class_name r) = None")
    case True
    then show ?thesis
      by (cases "slot_position (slot r)")
         (auto simp: place_rows_step [OF t] Let_def Cons.IH [OF rest] dom_map_entry dom_update
               simp del: place_rows.simps)
  next
    case False
    then show ?thesis
      using k
      by (cases "slot_position (slot r)")
         (auto simp: place_rows_step [OF t] Let_def Cons.IH [OF rest] dom_map_entry dom_update
               simp del: place_rows.simps)
  qed
qed

lemma place_rows_cell:
  assumes "\<forall>r \<in> set rows. tolerated (slot r)" and "rows_of_five g" and "i < 5"
  shows "cell (fst (snd (place_rows sf rows (g, p)))) c i =
           (case find (\<lambda>r. class_name r = c \<and> slot_position (slot r) = Some i) (rev rows) of
              Some r \<Rightarrow> Some (teacher_name r)
            | None \<Rightarrow> cell g c i)"
  using assms
proof (induction rows arbitrary: g p)
  case Nil
  then show ?case by simp
next
  case (Cons r rows)
  then have t: "tolerated (slot r)" and rest: "\<forall>r \<in> set rows. tolerated (slot r)"
    by simp_all
  let ?g1 = "if map_of g (class_name r) = None
             then AList.update (class_name r) (replicate 5 None) g else g"
  have g1: "rows_of_five ?g1"
    using Cons.prems(2) by (auto simp: rows_of_five_def update_conv')
  have c1: "cell ?g1 c i = cell g c i"
    using Cons.prems(3) by (auto simp: cell_def update_conv')
  show ?case
  proof (cases "slot_position (slot r)")
    case None
    then show ?thesis
      using Cons.IH [OF rest g1 Cons.prems(3), of "p @ [row_warning sf r]"] c1
      by (auto simp: place_rows_step [OF t] Let_def find_snoc simp del: place_rows.simps
            split: option.splits)
  next
    case (Some j)
    let ?g2 = "AList.map_entry (class_name r) (\<lambda>xs. xs[j := Some (teacher_name r)]) ?g1"
    have g2: "rows_of_five ?g2"
      using g1 unfolding rows_of_five_def map_of_map_entry by (auto split: option.splits)
    have j: "j < 5"
      using Some by (cases "slot r") (auto split: if_splits)
    have c2: "cell ?g2 c i =
                (if class_name r = c \<and> j = i then Some (teacher_name r) else cell g c i)"
    proof -
      obtain xs where xs: "map_of ?g1 (class_name r) = Some xs" "length xs = 5"
        using g1 by (cases "map_of g (class_name r)") (auto simp: rows_of_five_def update_conv')
      show ?thesis
      proof (cases "class_name r = c")
        case False
        then show ?thesis using c1 by (simp add: cell_def map_of_map_entry)
      next
        case c: True
        have "cell ?g2 c i = (xs[j := Some (teacher_name r)]) ! i"
          using xs c Cons.prems(3) by (simp add: cell_def map_of_map_entry)
        moreover have "cell ?g1 c i = xs ! i"
          using xs c Cons.prems(3) by (simp add: cell_def)
        ultimately show ?thesis
          using c c1 xs j Cons.prems(3) by (auto simp: nth_list_update)
      qed
    qed
    show ?thesis
      using Some Cons.IH [OF rest g2 Cons.prems(3), of p] c2
      by (auto simp: place_rows_step [OF t] Let_def find_snoc simp del: place_rows.simps
            split: option.splits)
  qed
qed

lemma select_timetable_set [simp]: "set (select_timetable db) = set (timetable db)"
  by (simp add: select_timetable_def)

text \<open>
  What the viewer does on every store.  With a session and a connection: if every stored
  slot is tolerated (an integer, or a number that is not within 1..5), the viewer answers
  with the page and a grid that has one entry per class of the stored rows, each a list
  of 5 positions; a row whose slot is not an integer within 1..5 is printed as a warning
  and fills no position; and when the stored rows have at most one row per class and
  slot, every row with an integer slot within 1..5 is found at position \<open>slot - 1\<close> of
  its class.  If some stored slot is not tolerated (a text, a blob, a real number within
  1..5), the request ends with \<open>TypeError\<close>.
\<close>

lemma viewer_outcomes:
  assumes "contains ''user'' sess" and "conn_ok"
  shows "((\<forall>r \<in> set (timetable db). tolerated (slot r)) \<longrightarrow>
          (\<exists>g printed.
             view_generate_timetable_page sf conn_ok sess db = (TimetablePage g, printed)
           \<and> fst ` set g = class_name ` set (timetable db)
           \<and> (\<forall>c xs. map_of g c = Some xs \<longrightarrow> length xs = 5)
           \<and> printed = map (row_warning sf)
                          (filter (\<lambda>r. slot_position (slot r) = None) (select_timetable db))
           \<and> (\<forall>c i t. i < 5 \<and> cell g c i = Some t \<longrightarrow>
                 (\<exists>r \<in> set (timetable db).
                    class_name r = c \<and> slot_position (slot r) = Some i \<and> teacher_name r = t))
           \<and> ((\<forall>r \<in> set (timetable db). \<forall>r' \<in> set (timetable db).
                   class_name r = class_name r' \<and> slot r = slot r' \<longrightarrow> r = r') \<longrightarrow>
               (\<forall>r \<in> set (timetable db). \<forall>i. slot_position (slot r) = Some i \<longrightarrow>
                   cell g (class_name r) i = Some (teacher_name r)))))
       \<and> ((\<exists>r \<in> set (timetable db). \<not> tolerated (slot r)) \<longrightarrow>
            fst (view_generate_timetable_page sf conn_ok sess db) = ViewUncaught TypeError)"
proof (intro conjI impI)
  assume "\<exists>r \<in> set (timetable db). \<not> tolerated (slot r)"
  then have "\<exists>r \<in> set (select_timetable db). \<not> tolerated (slot r)"
    by simp
  from place_rows_raises [OF this, of sf "[]" "[]"]
  show "fst (view_generate_timetable_page sf conn_ok sess db) = ViewUncaught TypeError"
    using assms by (auto simp: view_generate_timetable_page_def split: prod.splits option.splits)
next
  assume tol: "\<forall>r \<in> set (timetable db). tolerated (slot r)"
  let ?rows = "select_timetable db"
  let ?g = "fst (snd (place_rows sf ?rows ([], [])))"
  let ?p = "snd (snd (place_rows sf ?rows ([], [])))"
  have tol': "\<forall>r \<in> set ?rows. tolerated (slot r)"
    using tol by simp
  have set_rows: "set ?rows = set (timetable db)"
    by simp
  have resp: "view_generate_timetable_page sf conn_ok sess db = (TimetablePage ?g, ?p)"
    using assms place_rows_returns [OF tol', of sf "[]" "[]"]
    by (auto simp: view_generate_timetable_page_def split: prod.splits option.splits)
  have keys: "fst ` set ?g = class_name ` set (timetable db)"
    using place_rows_keys [OF tol', of sf "[]" "[]"] by simp
  have five: "\<forall>c xs. map_of ?g c = Some xs \<longrightarrow> length xs = 5"
    using place_rows_five [OF tol' rows_of_five_Nil, of sf "[]"] by (simp add: rows_of_five_def)
  have printed: "?p = map (row_warning sf) (filter (\<lambda>r. slot_position (slot r) = None) ?rows)"
    using place_rows_printed [OF tol', of sf "[]" "[]"] by simp
  have cells: "cell ?g c i =
                 map_option teacher_name
                   (find (\<lambda>r. class_name r = c \<and> slot_position (slot r) = Some i) (rev ?rows))"
    if "i < 5" for c i
    using place_rows_cell [OF tol' rows_of_five_Nil that, of sf "[]" c]
    by (simp add: cell_def split: option.splits)
  have from_row: "\<exists>r \<in> set (timetable db).
          class_name r = c \<and> slot_position (slot r) = Some i \<and> teacher_name r = t"
    if "i < 5" and "cell ?g c i = Some t" for c i t
  proof -
    from that cells [OF that(1), of c]
    obtain r where r: "find (\<lambda>r. class_name r = c \<and> slot_position (slot r) = Some i) (rev ?rows) = Some r"
      and t: "teacher_name r = t"
      by auto
    from find_SomeD [OF r]
    have "r \<in> set (timetable db)" and "class_name r = c" and "slot_position (slot r) = Some i"
      by auto
    then show ?thesis
      using t by blast
  qed
  have placed: "cell ?g (class_name r) i = Some (teacher_name r)"
    if uniq: "\<forall>r \<in> set (timetable db). \<forall>r' \<in> set (timetable db).
                 class_name r = class_name r' \<and> slot r = slot r' \<longrightarrow> r = r'"
      and r: "r \<in> set (timetable db)" "slot_position (slot r) = Some i" for r i
  proof -
    have i: "i < 5"
      using r(2) by (cases "slot r") (auto split: if_splits)
    have "find (\<lambda>x. class_name x = class_name r \<and> slot_position (slot x) = Some i) (rev ?rows) \<noteq> None"
      using r by (auto simp: find_None_iff)
    then obtain r' where r': "find (\<lambda>x. class_name x = class_name r \<and> slot_position (slot x) = Some i) (rev ?rows) = Some r'"
      by auto
    from find_SomeD [OF this]
    have m: "r' \<in> set (timetable db)" "class_name r' = class_name r" "slot_position (slot r') = Some i"
      by auto
    have "slot r' = slot r"
      using m(3) r(2) by (cases "slot r'"; cases "slot r") (auto split: if_splits)
    then have "r' = r"
      using uniq r(1) m by blast
    then show ?thesis
      using cells [OF i, of "class_name r"] r' by simp
  qed
  show "\<exists>g printed.
             view_generate_timetable_page sf conn_ok sess db = (TimetablePage g, printed)
           \<and> fst ` set g = class_name ` set (timetable db)
           \<and> (\<forall>c xs. map_of g c = Some xs \<longrightarrow> length xs = 5)
           \<and> printed = map (row_warning sf)
                          (filter (\<lambda>r. slot_position (slot r) = None) (select_timetable db))
           \<and> (\<forall>c i t. i < 5 \<and> cell g c i = Some t \<longrightarrow>
                 (\<exists>r \<in> set (timetable db).
                    class_name r = c \<and> slot_position (slot r) = Some i \<and> teacher_name r = t))
           \<and> ((\<forall>r \<in> set (timetable db). \<forall>r' \<in> set (timetable db).
                   class_name r = class_name r' \<and> slot r = slot r' \<longrightarrow> r = r') \<longrightarrow>
               (\<forall>r \<in> set (timetable db). \<forall>i. slot_position (slot r) = Some i \<longrightarrow>
                   cell g (class_name r) i = Some (teacher_name r)))"
  proof (intro exI conjI)
    show "view_generate_timetable_page sf conn_ok sess db = (TimetablePage ?g, ?p)"
      by (rule resp)
    show "fst ` set ?g = class_name ` set (timetable db)"
      by (rule keys)
    show "\<forall>c xs. map_of ?g c = Some xs \<longrightarrow> length xs = 5"
      by (rule five)
    show "?p = map (row_warning sf)
                 (filter (\<lambda>r. slot_position (slot r) = None) (select_timetable db))"
      by (rule printed)
    show "\<forall>c i t. i < 5 \<and> cell ?g c i = Some t \<longrightarrow>
                 (\<exists>r \<in> set (timetable db).
                    class_name r = c \<and> slot_position (slot r) = Some i \<and> teacher_name r = t)"
      using from_row by blast
    show "(\<forall>r \<in> set (timetable db). \<forall>r' \<in> set (timetable db).
                   class_name r = class_name r' \<and> slot r = slot r' \<longrightarrow> r = r') \<longrightarrow>
               (\<forall>r \<in> set (timetable db). \<forall>i. slot_position (slot r) = Some i \<longrightarrow>
                   cell ?g (class_name r) i = Some (teacher_name r))"
      using placed by blast
  qed
qed

text \<open>
  C8 does not hold of the code.  A stored row whose slot is the text \<open>abc\<close> is outside
  1..5, and a stored row whose slot is the number 2.5 is not a period of the grid; with a
  session and a connection the request for either store ends with \<open>TypeError\<close> (status
  500) instead of a page with the row skipped.  Slots that are numbers outside 1..5 (the
  integer 7, the number 7.5) are printed as warnings and skipped, and the row with slot 1
  is at position 0 of its class.
\<close>

theorem viewer_fails_on_text_slot:
  "view_generate_timetable_page float_text True admin_session (db_with [] text_slot_rows)
     = (ViewUncaught TypeError, [])
   \<and> view_generate_timetable_page float_text True admin_session (db_with [] real_slot_rows)
     = (ViewUncaught TypeError, [])
   \<and> view_generate_timetable_page float_text True admin_session (db_with [] outside_rows)
     = (TimetablePage
          [(''BCA I'', [None, None, None, None, None]),
           (''MCA I'', [Some ''Gita'', None, None, None, None])],
        [''Warning: Unexpected slot number 7 for class BCA I'',
         ''Warning: Unexpected slot number 7.5 for class MCA I''])"
  by (simp add: view_generate_timetable_page_def contains_def admin_session_def db_with_def
        text_slot_rows_def real_slot_rows_def outside_rows_def select_timetable_def
        slot_warning_def float_text_def str_int_def str_nat.simps digit_char_def
        eval_nat_numeral)

subsection \<open>The generator: what each loop does\<close>

lemma upt_4: "[0..<4] = [0, 1, 2, 3]"
  by code_simp

lemma upt_5: "[0..<5] = [0, 1, 2, 3, 4]"
  by code_simp

lemma upt_20: "[0..<20] = [0, 1, 2, 3, 4, 5, 6, 7, 8, 9, 10, 11, 12, 13, 14, 15, 16, 17, 18, 19]"
  by code_simp

lemmas grid_unfold =
  classes_def periods_def all_vars_def all_keys_def full_tvars_def var_at_def period_groups_def
  class_groups_def upt_4 upt_5 upt_20 str_int_def str_nat.simps digit_char_def Let_def

lemma full_tvars_lookup:
  shows "map_of (full_tvars lo hi) (''MCA I'', 1) = Some (var_at lo hi 0)"
    "map_of (full_tvars lo hi) (''MCA I'', 2) = Some (var_at lo hi 1)"
    "map_of (full_tvars lo hi) (''MCA I'', 3) = Some (var_at lo hi 2)"
    "map_of (full_tvars lo hi) (''MCA I'', 4) = Some (var_at lo hi 3)"
    "map_of (full_tvars lo hi) (''MCA I'', 5) = Some (var_at lo hi 4)"
    "map_of (full_tvars lo hi) (''MCA II'', 1) = Some (var_at lo hi 5)"
    "map_of (full_tvars lo hi) (''MCA II'', 2) = Some (var_at lo hi 6)"
    "map_of (full_tvars lo hi) (''MCA II'', 3) = Some (var_at lo hi 7)"
    "map_of (full_tvars lo hi) (''MCA II'', 4) = Some (var_at lo hi 8)"
    "map_of (full_tvars lo hi) (''MCA II'', 5) = Some (var_at lo hi 9)"
    "map_of (full_tvars lo hi) (''MSC I'', 1) = Some (var_at lo hi 10)"
    "map_of (full_tvars lo hi) (''MSC I'', 2) = Some (var_at lo hi 11)"
    "map_of (full_tvars lo hi) (''MSC I'', 3) = Some (var_at lo hi 12)"
    "map_of (full_tvars lo hi) (''MSC I'', 4) = Some (var_at lo hi 13)"
    "map_of (full_tvars lo hi) (''MSC I'', 5) = Some (var_at lo hi 14)"
    "map_of (full_tvars lo hi) (''MSC II'', 1) = Some (var_at lo hi 15)"
    "map_of (full_tvars lo hi) (''MSC II'', 2) = Some (var_at lo hi 16)"
    "map_of (full_tvars lo hi) (''MSC II'', 3) = Some (var_at lo hi 17)"
    "map_of (full_tvars lo hi) (''MSC II'', 4) = Some (var_at lo hi 18)"
    "map_of (full_tvars lo hi) (''MSC II'', 5) = Some (var_at lo hi 19)"
  by (simp_all add: full_tvars_def all_keys_def all_vars_def classes_def periods_def upt_20)

lemma ids_bounds:
  assumes "ids \<noteq> []"
  obtains lo hi where "py_min ids = Inr lo" and "py_max ids = Inr hi"
  using assms by (cases ids) auto

lemma new_vars_eval:
  assumes "py_min ids = Inr lo" and "py_max ids = Inr hi"
  shows "new_vars classes ids (start_state db es) = (None, vars_state lo hi db es)"
  using assms
  by (simp add: start_state_def vars_state_def grid_unfold NewIntVar_def CpModel_def)

lemma period_constraints_eval:
  assumes "4 \<le> length (remdups ids)"
  shows "period_constraints periods ids (vars_state lo hi db es) = (None, periods_state lo hi db es)"
  using assms
  by (simp add: vars_state_def periods_state_def grid_unfold AddAllDifferent_def)

lemma period_constraints_reject:
  assumes "length (remdups ids) < 4"
  shows "period_constraints periods ids (vars_state lo hi db es) =
           (Some (JsonError
              ''Not enough unique teachers to assign a different teacher to each class for every period.''
              400), vars_state lo hi db es)"
  using assms
  by (simp add: vars_state_def grid_unfold)

lemma class_constraints_eval:
  assumes "5 \<le> length (remdups ids)"
  shows "class_constraints classes ids (periods_state lo hi db [SqlSelectTeachers, CpNewModel])
           = (None, built_state lo hi db)"
  using assms
  by (simp add: periods_state_def built_state_def built_effects_def full_model_def grid_unfold
        AddAllDifferent_def)

lemma class_constraints_reject:
  assumes "length (remdups ids) < 5"
  shows "class_constraints classes ids (periods_state lo hi db es) =
           (Some (JsonError
              (''Not enough unique teachers for class '' @ quoted ''MCA I'' @
               '' to have a different teacher for each period.'') 400),
            periods_state lo hi db es)"
  using assms
  by (simp add: periods_state_def grid_unfold)

lemma build_model_few:
  assumes "py_min ids = Inr lo" and "py_max ids = Inr hi" and "length (remdups ids) < 4"
  shows "build_model ids (start_state db es) =
           (Some (JsonError
              ''Not enough unique teachers to assign a different teacher to each class for every period.''
              400), vars_state lo hi db es)"
  using assms
  by (simp add: build_model_def new_vars_eval period_constraints_reject)

lemma build_model_four:
  assumes "py_min ids = Inr lo" and "py_max ids = Inr hi"
    and "4 \<le> length (remdups ids)" and "length (remdups ids) < 5"
  shows "build_model ids (start_state db es) =
           (Some (JsonError
              (''Not enough unique teachers for class '' @ quoted ''MCA I'' @
               '' to have a different teacher for each period.'') 400),
            periods_state lo hi db es)"
  using assms
  by (simp add: build_model_def new_vars_eval period_constraints_eval class_constraints_reject)

lemma build_model_full:
  assumes "py_min ids = Inr lo" and "py_max ids = Inr hi" and "5 \<le> length (remdups ids)"
  shows "build_model ids (start_state db [SqlSelectTeachers, CpNewModel]) = (None, built_state lo hi db)"
  using assms
  by (simp add: build_model_def new_vars_eval period_constraints_eval class_constraints_eval)

lemma save_class_step:
  assumes "map_of (timetable_vars st) (c, p) = Some v"
  shows "save_class c (p # ps) val tm st =
           save_class c ps val tm
             (st\<lparr>display := AList.map_entry c (\<lambda>xs. xs @ [get_teacher_name tm (val v)]) (display st),
                 store := insert_timetable
                            \<lparr>class_name = c, slot = SqlInteger p, teacher_name = get_teacher_name tm (val v)\<rparr>
                            (store st),
                 effects := effects st @
                   [SqlInsertTimetable
                      \<lparr>class_name = c, slot = SqlInteger p, teacher_name = get_teacher_name tm (val v)\<rparr>]\<rparr>)"
  using assms by (simp add: Let_def)

lemma shown_explicit:
  "shown lo hi val tm =
     [(''MCA I'', map (\<lambda>k. get_teacher_name tm (val (var_at lo hi k))) [0, 1, 2, 3, 4]),
      (''MCA II'', map (\<lambda>k. get_teacher_name tm (val (var_at lo hi k))) [5, 6, 7, 8, 9]),
      (''MSC I'', map (\<lambda>k. get_teacher_name tm (val (var_at lo hi k))) [10, 11, 12, 13, 14]),
      (''MSC II'', map (\<lambda>k. get_teacher_name tm (val (var_at lo hi k))) [15, 16, 17, 18, 19])]"
  by (simp add: shown_def classes_def upt_4 upt_5 del: add_2_eq_Suc add_2_eq_Suc')

lemma save_classes_eval:
  "save_classes classes val tm
     \<lparr>model = m, timetable_vars = full_tvars lo hi, display = [],
      store = db\<lparr>timetable := []\<rparr>, effects = es\<rparr> =
   (None,
    \<lparr>model = m, timetable_vars = full_tvars lo hi, display = shown lo hi val tm,
     store = db\<lparr>timetable := grid_rows (shown lo hi val tm)\<rparr>,
     effects = es @ map SqlInsertTimetable (grid_rows (shown lo hi val tm))\<rparr>)"
  by (simp add: grid_rows_def shown_explicit full_tvars_lookup save_class_step
        all_keys_def classes_def periods_def insert_timetable_def
        del: save_class.simps(2) add_2_eq_Suc add_2_eq_Suc')

text \<open>The three ways \<open>solve_and_save\<close> ends on the model built.\<close>

lemma solve_failed:
  assumes "solve (full_model lo hi) = (status, val)"
    and "status \<noteq> OPTIMAL" and "status \<noteq> FEASIBLE"
  shows "solve_and_save solve save_conn_ok tm (built_state lo hi db) =
           (JsonError (failure_message status) 500,
            (built_state lo hi db)
              \<lparr>effects := built_effects lo hi @ [CpSolve (full_model lo hi)]\<rparr>)"
  using assms by (simp add: solve_and_save_def built_state_def)

lemma solve_not_saved:
  assumes "solve (full_model lo hi) = (status, val)"
    and "status = OPTIMAL \<or> status = FEASIBLE" and "\<not> save_conn_ok"
  shows "solve_and_save solve save_conn_ok tm (built_state lo hi db) =
           (JsonError ''Database connection failed for saving.'' 500,
            (built_state lo hi db)
              \<lparr>effects := built_effects lo hi @ [CpSolve (full_model lo hi)]\<rparr>)"
  using assms by (auto simp: solve_and_save_def built_state_def)

lemma solve_saved:
  assumes "solve (full_model lo hi) = (status, val)"
    and "status = OPTIMAL \<or> status = FEASIBLE" and "save_conn_ok"
  shows "solve_and_save solve save_conn_ok tm (built_state lo hi db) =
           (JsonTimetable (shown lo hi val tm) ''Timetable generated successfully!'',
            \<lparr>model = full_model lo hi, timetable_vars = full_tvars lo hi,
             display = shown lo hi val tm,
             store = db\<lparr>timetable := grid_rows (shown lo hi val tm)\<rparr>,
             effects = built_effects lo hi
                 @ [CpSolve (full_model lo hi), SqlDeleteTimetable, SqlCommit]
                 @ map SqlInsertTimetable (grid_rows (shown lo hi val tm)) @ [SqlCommit]\<rparr>)"
  using assms by (auto simp: solve_and_save_def built_state_def save_classes_eval)

subsection \<open>The generator: the paths of the handler\<close>

lemma generate_unauthorized:
  assumes "\<not> contains ''user'' sess"
  shows "generate_timetable_process solve conn_ok save_conn_ok sess db =
           (JsonError ''Unauthorized'' 401, start_state db [])"
  using assms by (simp add: generate_timetable_process_def start_state_def)

lemma generate_no_connection:
  assumes "contains ''user'' sess" and "\<not> conn_ok"
  shows "generate_timetable_process solve conn_ok save_conn_ok sess db =
           (JsonError ''Database connection failed.'' 500, start_state db [])"
  using assms by (simp add: generate_timetable_process_def start_state_def)

lemma generate_no_teachers:
  assumes "contains ''user'' sess" and "conn_ok" and "teachers db = []"
  shows "generate_timetable_process solve conn_ok save_conn_ok sess db =
           (JsonError ''No teachers registered. Please add teachers to generate a timetable.'' 400,
            start_state db [SqlSelectTeachers])"
  using assms by (simp add: generate_timetable_process_def start_state_def)

lemma generate_builds:
  assumes "contains ''user'' sess" and "conn_ok" and "teachers db \<noteq> []"
  shows "generate_timetable_process solve conn_ok save_conn_ok sess db =
           (case build_model (map teacher_id (teachers db))
                   (start_state db [SqlSelectTeachers, CpNewModel]) of
              (Some r, st) \<Rightarrow> (r, st)
            | (None, st) \<Rightarrow> solve_and_save solve save_conn_ok (dict_of_teachers (teachers db)) st)"
  using assms by (simp add: generate_timetable_process_def start_state_def Let_def)

lemma generate_few:
  assumes "contains ''user'' sess" and "conn_ok" and "teachers db \<noteq> []"
    and "py_min (map teacher_id (teachers db)) = Inr lo"
    and "py_max (map teacher_id (teachers db)) = Inr hi"
    and "length (remdups (map teacher_id (teachers db))) < 4"
  shows "generate_timetable_process solve conn_ok save_conn_ok sess db =
           (JsonError
              ''Not enough unique teachers to assign a different teacher to each class for every period.''
              400, vars_state lo hi db [SqlSelectTeachers, CpNewModel])"
  using assms by (simp add: generate_builds build_model_few)

lemma generate_four:
  assumes "contains ''user'' sess" and "conn_ok" and "teachers db \<noteq> []"
    and "py_min (map teacher_id (teachers db)) = Inr lo"
    and "py_max (map teacher_id (teachers db)) = Inr hi"
    and "4 \<le> length (remdups (map teacher_id (teachers db)))"
    and "length (remdups (map teacher_id (teachers db))) < 5"
  shows "generate_timetable_process solve conn_ok save_conn_ok sess db =
           (JsonError
              (''Not enough unique teachers for class '' @ quoted ''MCA I'' @
               '' to have a different teacher for each period.'') 400,
            periods_state lo hi db [SqlSelectTeachers, CpNewModel])"
  using assms by (simp add: generate_builds build_model_four)

lemma generate_solves:
  assumes "contains ''user'' sess" and "conn_ok" and "teachers db \<noteq> []"
    and "py_min (map teacher_id (teachers db)) = Inr lo"
    and "py_max (map teacher_id (teachers db)) = Inr hi"
    and "5 \<le> length (remdups (map teacher_id (teachers db)))"
  shows "generate_timetable_process solve conn_ok save_conn_ok sess db =
           solve_and_save solve save_conn_ok (dict_of_teachers (teachers db)) (built_state lo hi db)"
  using assms by (simp add: generate_builds build_model_full)

text \<open>Effects of the states reached.\<close>

lemma filter_creates_map_new [simp]: "filter creates_variable (map CpNewIntVar vs) = map CpNewIntVar vs"
  by (induction vs) auto

lemma filter_creates_map_add [simp]: "filter creates_variable (map CpAddAllDifferent gs) = []"
  by (induction gs) auto

lemma filter_adds_map_new [simp]: "filter adds_constraint (map CpNewIntVar vs) = []"
  by (induction vs) auto

lemma filter_adds_map_add [simp]:
  "filter adds_constraint (map CpAddAllDifferent gs) = map CpAddAllDifferent gs"
  by (induction gs) auto

lemma length_period_groups [simp]: "length (period_groups lo hi) = 5"
  by (simp add: period_groups_def)

lemma solver_inputs_append [simp]: "solver_inputs (es @ es') = solver_inputs es @ solver_inputs es'"
  by (induction es rule: solver_inputs.induct) auto

lemma solver_inputs_map_new [simp]: "solver_inputs (map CpNewIntVar vs) = []"
  by (induction vs) auto

lemma solver_inputs_map_add [simp]: "solver_inputs (map CpAddAllDifferent gs) = []"
  by (induction gs) auto

lemma solver_inputs_map_insert [simp]: "solver_inputs (map SqlInsertTimetable rs) = []"
  by (induction rs) auto

lemma solver_inputs_built [simp]: "solver_inputs (built_effects lo hi) = []"
  by (simp add: built_effects_def)

lemma length_all_vars [simp]: "length (all_vars lo hi) = 20"
  by (simp add: all_vars_def)

lemma filter_builds_map_new [simp]: "filter builds_model (map CpNewIntVar vs) = map CpNewIntVar vs"
  by (induction vs) auto

lemma filter_builds_map_add [simp]: "filter builds_model (map CpAddAllDifferent gs) = map CpAddAllDifferent gs"
  by (induction gs) auto

lemma filter_writes_map_new [simp]: "filter writes_timetable (map CpNewIntVar vs) = []"
  by (induction vs) auto

lemma grid_rows_shown_keys:
  "map (\<lambda>r. (class_name r, slot r)) (grid_rows (shown lo hi val tm))
     = map (\<lambda>(c, p). (c, SqlInteger p)) (List.product classes periods)"
  by (simp add: grid_rows_def shown_explicit classes_def periods_def)

lemma grid_rows_shown_length: "length (grid_rows (shown lo hi val tm)) = 20"
  by (simp add: grid_rows_def shown_explicit)

lemma shown_classes: "map fst (shown lo hi val tm) = classes"
  by (simp add: shown_explicit classes_def)

lemma shown_lengths: "\<forall>names \<in> set (map snd (shown lo hi val tm)). length names = 5"
  by (simp add: shown_explicit)

text \<open>No run ends with an exception leaving the handler.\<close>

lemma generate_never_raises:
  "fst (generate_timetable_process solve conn_ok save_conn_ok sess db) \<noteq> Uncaught e"
proof (cases "contains ''user'' sess \<and> conn_ok \<and> teachers db \<noteq> []")
  case False
  then consider "\<not> contains ''user'' sess" | "contains ''user'' sess" "\<not> conn_ok"
    | "contains ''user'' sess" "conn_ok" "teachers db = []"
    by blast
  then show ?thesis
  proof cases
    case 1
    then show ?thesis by (simp add: generate_unauthorized)
  next
    case 2
    then show ?thesis by (simp add: generate_no_connection)
  next
    case 3
    then show ?thesis by (simp add: generate_no_teachers)
  qed
next
  case True
  then have auth: "contains ''user'' sess" and conn: conn_ok and ne: "teachers db \<noteq> []"
    by simp_all
  let ?ids = "map teacher_id (teachers db)"
  let ?tm = "dict_of_teachers (teachers db)"
  from ne have "?ids \<noteq> []" by simp
  then obtain lo hi where b: "py_min ?ids = Inr lo" "py_max ?ids = Inr hi"
    by (rule ids_bounds)
  consider "length (remdups ?ids) < 4"
    | "4 \<le> length (remdups ?ids)" "length (remdups ?ids) < 5"
    | "5 \<le> length (remdups ?ids)"
    by linarith
  then show ?thesis
  proof cases
    case 1
    then show ?thesis by (simp add: generate_few [OF auth conn ne b])
  next
    case 2
    then show ?thesis by (simp add: generate_four [OF auth conn ne b])
  next
    case 3
    note solves = generate_solves [OF auth conn ne b 3, of solve save_conn_ok]
    obtain status val where sv: "solve (full_model lo hi) = (status, val)"
      by (cases "solve (full_model lo hi)")
    show ?thesis
    proof (cases "status = OPTIMAL \<or> status = FEASIBLE")
      case False
      then have "status \<noteq> OPTIMAL" and "status \<noteq> FEASIBLE" by auto
      from solve_failed [of solve lo hi status val save_conn_ok ?tm db, OF sv this]
      show ?thesis by (simp add: solves)
    next
      case ok: True
      show ?thesis
      proof (cases save_conn_ok)
        case False
        from solve_not_saved [of solve lo hi status val save_conn_ok ?tm db, OF sv ok this]
        show ?thesis by (simp add: solves)
      next
        case True
        from solve_saved [of solve lo hi status val save_conn_ok ?tm db, OF sv ok this]
        show ?thesis by (simp add: solves)
      qed
    qed
  qed
qed

text \<open>What a run that answers with a timetable has done.\<close>

lemma generate_success_inversion:
  assumes run: "generate_timetable_process solve conn_ok save_conn_ok sess db = (JsonTimetable g msg, st)"
  obtains lo hi val where
    "g = shown lo hi val (dict_of_teachers (teachers db))"
    and "store st = db\<lparr>timetable := grid_rows g\<rparr>"
    and "effects st = built_effects lo hi
                 @ [CpSolve (full_model lo hi), SqlDeleteTimetable, SqlCommit]
                 @ map SqlInsertTimetable (grid_rows g) @ [SqlCommit]"
    and "msg = ''Timetable generated successfully!''"
proof -
  let ?ids = "map teacher_id (teachers db)"
  have auth: "contains ''user'' sess"
    using run generate_unauthorized [of sess solve conn_ok save_conn_ok db] by auto
  have conn: "conn_ok"
  proof (rule ccontr)
    assume "\<not> conn_ok"
    from generate_no_connection [OF auth this, of solve save_conn_ok db] run
    show False by simp
  qed
  have ne: "teachers db \<noteq> []"
    using run auth conn generate_no_teachers [of sess conn_ok db solve save_conn_ok] by auto
  then have "?ids \<noteq> []" by simp
  then obtain lo hi where b: "py_min ?ids = Inr lo" "py_max ?ids = Inr hi"
    by (rule ids_bounds)
  have n4: "\<not> length (remdups ?ids) < 4"
    using run generate_few [OF auth conn ne b, of solve save_conn_ok] by auto
  have n5: "\<not> length (remdups ?ids) < 5"
    using run n4 generate_four [OF auth conn ne b, of solve save_conn_ok] by auto
  then have five: "5 \<le> length (remdups ?ids)" by simp
  note solves = generate_solves [OF auth conn ne b five, of solve save_conn_ok]
  obtain status val where sv: "solve (full_model lo hi) = (status, val)"
    by (cases "solve (full_model lo hi)")
  have ok: "status = OPTIMAL \<or> status = FEASIBLE"
  proof (rule ccontr)
    assume "\<not> (status = OPTIMAL \<or> status = FEASIBLE)"
    then have "status \<noteq> OPTIMAL" and "status \<noteq> FEASIBLE" by auto
    from solve_failed [of solve lo hi status val save_conn_ok "dict_of_teachers (teachers db)" db,
           OF sv this] run solves
    show False by simp
  qed
  have save: "save_conn_ok"
  proof (rule ccontr)
    assume "\<not> save_conn_ok"
    from solve_not_saved [of solve lo hi status val save_conn_ok "dict_of_teachers (teachers db)" db,
           OF sv ok this] run solves
    show False by simp
  qed
  have full: "generate_timetable_process solve conn_ok save_conn_ok sess db =
           (JsonTimetable (shown lo hi val (dict_of_teachers (teachers db)))
              ''Timetable generated successfully!'',
            \<lparr>model = full_model lo hi, timetable_vars = full_tvars lo hi,
             display = shown lo hi val (dict_of_teachers (teachers db)),
             store = db\<lparr>timetable := grid_rows (shown lo hi val (dict_of_teachers (teachers db)))\<rparr>,
             effects = built_effects lo hi
                 @ [CpSolve (full_model lo hi), SqlDeleteTimetable, SqlCommit]
                 @ map SqlInsertTimetable (grid_rows (shown lo hi val (dict_of_teachers (teachers db))))
                 @ [SqlCommit]\<rparr>)"
    using solves
      solve_saved [of solve lo hi status val save_conn_ok "dict_of_teachers (teachers db)" db,
        OF sv ok save]
    by (rule trans)
  from trans [OF run [symmetric] full]
  have "g = shown lo hi val (dict_of_teachers (teachers db))"
    and "msg = ''Timetable generated successfully!''"
    and "store st = db\<lparr>timetable := grid_rows (shown lo hi val (dict_of_teachers (teachers db)))\<rparr>"
    and "effects st = built_effects lo hi
                 @ [CpSolve (full_model lo hi), SqlDeleteTimetable, SqlCommit]
                 @ map SqlInsertTimetable (grid_rows (shown lo hi val (dict_of_teachers (teachers db))))
                 @ [SqlCommit]"
    by simp_all
  then show thesis
    using that [of lo hi val] by simp
qed

text \<open>
  C4.  Take two runs that both answer with a timetable, the second starting from a store
  whose timetable is the one the first run left (the roster may have changed in between).
  After the second run the timetable table is exactly the list of rows of the grid that
  run returned: 20 rows, one for each class and period, in the order of the loops.  The
  second run's writes to the table are one \<open>DELETE\<close> of all rows followed by the 20
  inserts.  The same holds for the first run, from any store.
\<close>

theorem regeneration_replaces_schedule:
  assumes first: "generate_timetable_process solve1 conn1 save1 sess1 db0 = (JsonTimetable g1 msg1, st1)"
    and between: "timetable db1 = timetable (store st1)"
    and second: "generate_timetable_process solve2 conn2 save2 sess2 db1 = (JsonTimetable g2 msg2, st2)"
  shows "timetable (store st1) = grid_rows g1
       \<and> timetable (store st2) = grid_rows g2
       \<and> store st2 = db1\<lparr>timetable := grid_rows g2\<rparr>
       \<and> length (grid_rows g2) = 20
       \<and> map (\<lambda>r. (class_name r, slot r)) (grid_rows g2)
            = map (\<lambda>(c, p). (c, SqlInteger p)) (List.product classes periods)
       \<and> map fst g2 = classes
       \<and> (\<forall>names \<in> set (map snd g2). length names = 5)
       \<and> filter writes_timetable (effects st2)
            = SqlDeleteTimetable # map SqlInsertTimetable (grid_rows g2)"
proof -
  from first obtain lo1 hi1 val1 where
    s1: "store st1 = db0\<lparr>timetable := grid_rows g1\<rparr>"
    by (rule generate_success_inversion)
  from second obtain lo hi val where
    g2: "g2 = shown lo hi val (dict_of_teachers (teachers db1))"
    and s2: "store st2 = db1\<lparr>timetable := grid_rows g2\<rparr>"
    and e2: "effects st2 = built_effects lo hi
                 @ [CpSolve (full_model lo hi), SqlDeleteTimetable, SqlCommit]
                 @ map SqlInsertTimetable (grid_rows g2) @ [SqlCommit]"
    by (rule generate_success_inversion)
  have w: "filter writes_timetable (map SqlInsertTimetable rs) = map SqlInsertTimetable rs" for rs
    by (induction rs) auto
  have "filter writes_timetable (effects st2) = SqlDeleteTimetable # map SqlInsertTimetable (grid_rows g2)"
    by (simp add: e2 built_effects_def w)
  then show ?thesis
    using s1 s2 g2 grid_rows_shown_keys [of lo hi val] grid_rows_shown_length [of lo hi val]
      shown_classes [of lo hi val] shown_lengths [of lo hi val]
    by simp
qed

lemma generate_solver_inversion:
  assumes run: "generate_timetable_process solve conn_ok save_conn_ok sess db = (resp, st)"
    and inv: "m \<in> set (solver_inputs (effects st))"
  obtains lo hi where "m = full_model lo hi"
    and "generate_timetable_process solve conn_ok save_conn_ok sess db =
           solve_and_save solve save_conn_ok (dict_of_teachers (teachers db)) (built_state lo hi db)"
    and "py_min (map teacher_id (teachers db)) = Inr lo"
    and "py_max (map teacher_id (teachers db)) = Inr hi"
    and "5 \<le> length (remdups (map teacher_id (teachers db)))"
proof -
  let ?ids = "map teacher_id (teachers db)"
  let ?tm = "dict_of_teachers (teachers db)"
  have auth: "contains ''user'' sess"
  proof (rule ccontr)
    assume "\<not> contains ''user'' sess"
    from generate_unauthorized [OF this, of solve conn_ok save_conn_ok db] run inv
    show False by (auto simp: start_state_def)
  qed
  have conn: "conn_ok"
  proof (rule ccontr)
    assume "\<not> conn_ok"
    from generate_no_connection [OF auth this, of solve save_conn_ok db] run inv
    show False by (auto simp: start_state_def)
  qed
  have ne: "teachers db \<noteq> []"
  proof
    assume "teachers db = []"
    from generate_no_teachers [OF auth conn this, of solve save_conn_ok] run inv
    show False by (auto simp: start_state_def)
  qed
  then have "?ids \<noteq> []" by simp
  then obtain lo hi where b: "py_min ?ids = Inr lo" "py_max ?ids = Inr hi"
    by (rule ids_bounds)
  have n4: "\<not> length (remdups ?ids) < 4"
  proof
    assume "length (remdups ?ids) < 4"
    from generate_few [OF auth conn ne b this, of solve save_conn_ok] run inv
    show False by (auto simp: vars_state_def)
  qed
  have n5: "\<not> length (remdups ?ids) < 5"
  proof
    assume "length (remdups ?ids) < 5"
    from generate_four [OF auth conn ne b _ this, of solve save_conn_ok] n4 run inv
    show False by (auto simp: periods_state_def)
  qed
  then have five: "5 \<le> length (remdups ?ids)" by simp
  note solves = generate_solves [OF auth conn ne b five, of solve save_conn_ok]
  obtain status val where sv: "solve (full_model lo hi) = (status, val)"
    by (cases "solve (full_model lo hi)")
  have "solver_inputs (effects st) = [full_model lo hi]"
  proof (cases "status = OPTIMAL \<or> status = FEASIBLE")
    case False
    then have "status \<noteq> OPTIMAL" and "status \<noteq> FEASIBLE" by auto
    from solve_failed [of solve lo hi status val save_conn_ok ?tm db, OF sv this] solves run
    show ?thesis by auto
  next
    case ok: True
    show ?thesis
    proof (cases save_conn_ok)
      case False
      from solve_not_saved [of solve lo hi status val save_conn_ok ?tm db, OF sv ok this] solves run
      show ?thesis by auto
    next
      case True
      from solve_saved [of solve lo hi status val save_conn_ok ?tm db, OF sv ok this] solves run
      show ?thesis by auto
    qed
  qed
  with inv have "m = full_model lo hi" by simp
  then show thesis
    using that [of lo hi] solves b five by simp
qed

text \<open>
  C5.  If a run handed a model to the solver and the solver's status for it is neither
  \<open>OPTIMAL\<close> nor \<open>FEASIBLE\<close>, the response is an error with status 500 whose message
  is, for \<open>INFEASIBLE\<close>, "The current set of teachers and classes makes it impossible
  ...", for \<open>MODEL_INVALID\<close>, "The timetable model itself is invalid ...", for \<open>UNKNOWN\<close>,
  "The solver could not determine a solution within the given time limit ...", and for
  every other status "An unexpected error occurred during timetable generation.".  The
  four texts are pairwise different.  The store is the one the run started from, and the
  run has executed neither a \<open>DELETE\<close> nor an \<open>INSERT\<close> on the timetable.
\<close>

theorem solver_failure_reported:
  assumes run: "generate_timetable_process solve conn_ok save_conn_ok sess db = (resp, st)"
    and invoked: "m \<in> set (solver_inputs (effects st))"
    and not_optimal: "fst (solve m) \<noteq> OPTIMAL"
    and not_feasible: "fst (solve m) \<noteq> FEASIBLE"
  shows "resp =
           JsonError
             (if fst (solve m) = INFEASIBLE then
                ''The current set of teachers and classes makes it impossible to generate a timetable that satisfies all constraints. Please check the number of teachers or simplify constraints.''
              else if fst (solve m) = MODEL_INVALID then
                ''The timetable model itself is invalid. This indicates an issue with constraint formulation.''
              else if fst (solve m) = UNKNOWN then
                ''The solver could not determine a solution within the given time limit. Try increasing the time limit or simplifying the problem.''
              else ''An unexpected error occurred during timetable generation.'')
             500
       \<and> distinct
           [''The current set of teachers and classes makes it impossible to generate a timetable that satisfies all constraints. Please check the number of teachers or simplify constraints.'',
            ''The timetable model itself is invalid. This indicates an issue with constraint formulation.'',
            ''The solver could not determine a solution within the given time limit. Try increasing the time limit or simplifying the problem.'',
            ''An unexpected error occurred during timetable generation.'']
       \<and> distinct [INFEASIBLE, MODEL_INVALID, UNKNOWN, FEASIBLE, OPTIMAL]
       \<and> store st = db
       \<and> filter writes_timetable (effects st) = []"
proof -
  from run invoked obtain lo hi where m: "m = full_model lo hi"
    and solves: "generate_timetable_process solve conn_ok save_conn_ok sess db =
           solve_and_save solve save_conn_ok (dict_of_teachers (teachers db)) (built_state lo hi db)"
    by (rule generate_solver_inversion) blast
  obtain status val where sv: "solve (full_model lo hi) = (status, val)"
    by (cases "solve (full_model lo hi)")
  have st: "status = fst (solve m)"
    using sv m by simp
  have "status \<noteq> OPTIMAL" and "status \<noteq> FEASIBLE"
    using not_optimal not_feasible st by simp_all
  from solve_failed [of solve lo hi status val save_conn_ok "dict_of_teachers (teachers db)" db,
         OF sv this] solves run
  have resp: "resp = JsonError (failure_message status) 500"
    and st_eq: "st = (built_state lo hi db)\<lparr>effects := built_effects lo hi @ [CpSolve (full_model lo hi)]\<rparr>"
    by simp_all
  have w: "filter writes_timetable (built_effects lo hi) = []"
    by (simp add: built_effects_def)
  have a: "store st = db"
    by (simp add: st_eq built_state_def)
  have b: "filter writes_timetable (effects st) = []"
    by (simp add: st_eq w)
  have c: "distinct
           [''The current set of teachers and classes makes it impossible to generate a timetable that satisfies all constraints. Please check the number of teachers or simplify constraints.'',
            ''The timetable model itself is invalid. This indicates an issue with constraint formulation.'',
            ''The solver could not determine a solution within the given time limit. Try increasing the time limit or simplifying the problem.'',
            ''An unexpected error occurred during timetable generation.'']"
    by simp
  have d: "distinct [INFEASIBLE, MODEL_INVALID, UNKNOWN, FEASIBLE, OPTIMAL]"
    by (simp add: INFEASIBLE_def MODEL_INVALID_def UNKNOWN_def FEASIBLE_def OPTIMAL_def)
  show ?thesis
    using resp st a b c d by (simp add: failure_message_def)
qed

text \<open>
  C3, amended.  With a session and a connection, a roster with fewer than 5 distinct
  teacher ids is answered with status 400 and a message that says what is missing; the
  store is unchanged, no model was handed to the solver and nothing was written to the
  timetable.  For an empty roster no variable has been created; for a non-empty one the
  20 variables have been created when the request is rejected, and with exactly 4
  distinct ids the five per-period constraints have been added as well.
\<close>

theorem too_few_teachers_rejected:
  assumes auth: "contains ''user'' sess" and conn: "conn_ok"
    and few: "length (remdups (map teacher_id (teachers db))) < 5"
  shows "\<exists>msg st.
           generate_timetable_process solve conn_ok save_conn_ok sess db = (JsonError msg 400, st)
         \<and> msg =
             (if teachers db = [] then
                ''No teachers registered. Please add teachers to generate a timetable.''
              else if length (remdups (map teacher_id (teachers db))) < 4 then
                ''Not enough unique teachers to assign a different teacher to each class for every period.''
              else ''Not enough unique teachers for class '' @ quoted ''MCA I'' @
                   '' to have a different teacher for each period.'')
         \<and> store st = db
         \<and> solver_inputs (effects st) = []
         \<and> filter writes_timetable (effects st) = []
         \<and> length (filter creates_variable (effects st)) = (if teachers db = [] then 0 else 20)
         \<and> length (filter adds_constraint (effects st))
              = (if length (remdups (map teacher_id (teachers db))) = 4 then 5 else 0)"
proof (cases "teachers db = []")
  case True
  from generate_no_teachers [OF auth conn True, of solve save_conn_ok]
  show ?thesis
    using True by (simp add: start_state_def)
next
  case ne: False
  let ?ids = "map teacher_id (teachers db)"
  from ne have "?ids \<noteq> []" by simp
  then obtain lo hi where b: "py_min ?ids = Inr lo" "py_max ?ids = Inr hi"
    by (rule ids_bounds)
  show ?thesis
  proof (cases "length (remdups ?ids) < 4")
    case True
    from generate_few [OF auth conn ne b True, of solve save_conn_ok]
    show ?thesis
      using ne True by (simp add: vars_state_def)
  next
    case False
    then have four: "4 \<le> length (remdups ?ids)" by simp
    with few have "length (remdups ?ids) = 4" by simp
    with generate_four [OF auth conn ne b four few, of solve save_conn_ok]
    show ?thesis
      using ne False by (simp add: periods_state_def)
  qed
qed

subsection \<open>Runs on the example rosters\<close>

lemma admin_logged_in: "contains ''user'' admin_session"
  by (simp add: contains_def admin_session_def)

lemma single_roster_facts:
  "teachers (db_with single_roster rows) \<noteq> []"
  "py_min (map teacher_id (teachers (db_with single_roster rows))) = Inr 1"
  "py_max (map teacher_id (teachers (db_with single_roster rows))) = Inr 1"
  "length (remdups (map teacher_id (teachers (db_with single_roster rows)))) = 1"
  by (simp_all add: db_with_def single_roster_def)

lemma four_roster_facts:
  "teachers (db_with four_roster rows) \<noteq> []"
  "py_min (map teacher_id (teachers (db_with four_roster rows))) = Inr 1"
  "py_max (map teacher_id (teachers (db_with four_roster rows))) = Inr 4"
  "length (remdups (map teacher_id (teachers (db_with four_roster rows)))) = 4"
  by (simp_all add: db_with_def four_roster_def)

lemma full_roster_facts:
  "teachers (db_with full_roster rows) \<noteq> []"
  "py_min (map teacher_id (teachers (db_with full_roster rows))) = Inr 1"
  "py_max (map teacher_id (teachers (db_with full_roster rows))) = Inr 5"
  "length (remdups (map teacher_id (teachers (db_with full_roster rows)))) = 5"
  by (simp_all add: db_with_def full_roster_def)

lemma gap_roster_facts:
  "teachers (db_with gap_roster rows) \<noteq> []"
  "py_min (map teacher_id (teachers (db_with gap_roster rows))) = Inr 1"
  "py_max (map teacher_id (teachers (db_with gap_roster rows))) = Inr 6"
  "length (remdups (map teacher_id (teachers (db_with gap_roster rows)))) = 5"
  by (simp_all add: db_with_def gap_roster_def)

lemma alias_roster_facts:
  "teachers (db_with alias_roster rows) \<noteq> []"
  "py_min (map teacher_id (teachers (db_with alias_roster rows))) = Inr 1"
  "py_max (map teacher_id (teachers (db_with alias_roster rows))) = Inr 6"
  "length (remdups (map teacher_id (teachers (db_with alias_roster rows)))) = 5"
  by (simp_all add: db_with_def alias_roster_def)

lemmas shown_unfold =
  shown_explicit var_at_def cyclic_values_def get_teacher_name_def dict_of_teachers_def
  str_int_def str_nat.simps digit_char_def

lemma shown_full:
  "shown 1 5 cyclic_values (dict_of_teachers full_roster) =
     [(''MCA I'', [''Asha'', ''Bala'', ''Chitra'', ''Dev'', ''Esha'']),
      (''MCA II'', [''Bala'', ''Chitra'', ''Dev'', ''Esha'', ''Asha'']),
      (''MSC I'', [''Chitra'', ''Dev'', ''Esha'', ''Asha'', ''Bala'']),
      (''MSC II'', [''Dev'', ''Esha'', ''Asha'', ''Bala'', ''Chitra''])]"
  by (simp add: shown_unfold full_roster_def)

lemma shown_gap:
  "shown 1 6 cyclic_values (dict_of_teachers gap_roster) =
     [(''MCA I'', [''Asha'', ''Bala'', ''Unknown Teacher ID: 3'', ''Dev'', ''Esha'']),
      (''MCA II'', [''Bala'', ''Unknown Teacher ID: 3'', ''Dev'', ''Esha'', ''Asha'']),
      (''MSC I'', [''Unknown Teacher ID: 3'', ''Dev'', ''Esha'', ''Asha'', ''Bala'']),
      (''MSC II'', [''Dev'', ''Esha'', ''Asha'', ''Bala'', ''Unknown Teacher ID: 3''])]"
  by (simp add: shown_unfold gap_roster_def)

lemma shown_alias:
  "shown 1 6 cyclic_values (dict_of_teachers alias_roster) =
     [(''MCA I'', [''Unknown Teacher ID: 3'', ''Bala'', ''Unknown Teacher ID: 3'', ''Dev'', ''Esha'']),
      (''MCA II'', [''Bala'', ''Unknown Teacher ID: 3'', ''Dev'', ''Esha'', ''Unknown Teacher ID: 3'']),
      (''MSC I'', [''Unknown Teacher ID: 3'', ''Dev'', ''Esha'', ''Unknown Teacher ID: 3'', ''Bala'']),
      (''MSC II'', [''Dev'', ''Esha'', ''Unknown Teacher ID: 3'', ''Bala'', ''Unknown Teacher ID: 3''])]"
  by (simp add: shown_unfold alias_roster_def)

lemma cyclic_values_solution: "satisfies (full_model lo hi) cyclic_values \<longleftrightarrow> lo \<le> 1 \<and> 5 \<le> hi"
  by (auto simp: satisfies_def full_model_def all_vars_def period_groups_def class_groups_def
        var_at_def cyclic_values_def upt_4 upt_5 upt_20)

text \<open>
  C3, as stated, fails: the rejection does not come before the model is built.  With one
  teacher the request is rejected after the model and its 20 variables were created (21
  effects on the model); with four teachers, after the five per-period constraints were
  added as well (26 effects).
\<close>

theorem rejection_after_variables_counterexample:
  "fst (generate_timetable_process (fixed_solver FEASIBLE) True True admin_session
          (db_with single_roster []))
     = JsonError
         ''Not enough unique teachers to assign a different teacher to each class for every period.''
         400
   \<and> length (filter builds_model
        (effects (snd (generate_timetable_process (fixed_solver FEASIBLE) True True admin_session
                         (db_with single_roster []))))) = 21
   \<and> fst (generate_timetable_process (fixed_solver FEASIBLE) True True admin_session
          (db_with four_roster []))
     = JsonError
         (''Not enough unique teachers for class '' @ quoted ''MCA I'' @
          '' to have a different teacher for each period.'') 400
   \<and> length (filter builds_model
        (effects (snd (generate_timetable_process (fixed_solver FEASIBLE) True True admin_session
                         (db_with four_roster []))))) = 26"
proof -
  have one: "length (remdups (map teacher_id (teachers (db_with single_roster [])))) < 4"
    by (simp add: single_roster_facts)
  have four: "4 \<le> length (remdups (map teacher_id (teachers (db_with four_roster []))))"
    "length (remdups (map teacher_id (teachers (db_with four_roster [])))) < 5"
    by (simp_all add: four_roster_facts)
  show ?thesis
    by (simp add: generate_few [OF admin_logged_in TrueI single_roster_facts(1,2,3) one]
          generate_four [OF admin_logged_in TrueI four_roster_facts(1,2,3) four]
          vars_state_def periods_state_def)
qed

theorem too_few_teachers_rejected_witness:
  "contains ''user'' admin_session
   \<and> length (remdups (map teacher_id (teachers (db_with four_roster stale_rows)))) < 5
   \<and> (\<exists>st. generate_timetable_process (fixed_solver FEASIBLE) True True admin_session
               (db_with four_roster stale_rows)
             = (JsonError (''Not enough unique teachers for class '' @ quoted ''MCA I'' @
                           '' to have a different teacher for each period.'') 400, st)
           \<and> store st = db_with four_roster stale_rows
           \<and> solver_inputs (effects st) = []
           \<and> filter writes_timetable (effects st) = []
           \<and> length (filter creates_variable (effects st)) = 20
           \<and> length (filter adds_constraint (effects st)) = 5)"
proof -
  have f: "length (remdups (map teacher_id (teachers (db_with four_roster stale_rows)))) < 5"
    by (simp add: four_roster_facts)
  from too_few_teachers_rejected [OF admin_logged_in TrueI f, of "fixed_solver FEASIBLE" True]
  show ?thesis
    using admin_logged_in f by (auto simp: four_roster_facts)
qed

theorem solver_failure_reported_witness:
  "full_model 1 5 \<in> set (solver_inputs (effects (snd
       (generate_timetable_process (fixed_solver INFEASIBLE) True True admin_session
          (db_with full_roster stale_rows)))))
   \<and> fst (fixed_solver INFEASIBLE (full_model 1 5)) \<noteq> OPTIMAL
   \<and> fst (fixed_solver INFEASIBLE (full_model 1 5)) \<noteq> FEASIBLE
   \<and> fst (generate_timetable_process (fixed_solver INFEASIBLE) True True admin_session
          (db_with full_roster stale_rows))
       = JsonError
           ''The current set of teachers and classes makes it impossible to generate a timetable that satisfies all constraints. Please check the number of teachers or simplify constraints.''
           500
   \<and> store (snd (generate_timetable_process (fixed_solver INFEASIBLE) True True admin_session
          (db_with full_roster stale_rows)))
       = db_with full_roster stale_rows"
proof -
  let ?r = "generate_timetable_process (fixed_solver INFEASIBLE) True True admin_session
              (db_with full_roster stale_rows)"
  have five: "5 \<le> length (remdups (map teacher_id (teachers (db_with full_roster stale_rows))))"
    by (simp add: full_roster_facts)
  have sv: "fixed_solver INFEASIBLE (full_model 1 5) = (INFEASIBLE, cyclic_values)"
    by (simp add: fixed_solver_def)
  have n: "INFEASIBLE \<noteq> OPTIMAL" "INFEASIBLE \<noteq> FEASIBLE"
    by (simp_all add: INFEASIBLE_def OPTIMAL_def FEASIBLE_def)
  have run: "?r = (fst ?r, snd ?r)"
    by simp
  have inv: "full_model 1 5 \<in> set (solver_inputs (effects (snd ?r)))"
    by (simp add: generate_solves [OF admin_logged_in TrueI full_roster_facts(1,2,3) five]
          solve_failed [of "fixed_solver INFEASIBLE" 1 5 INFEASIBLE cyclic_values, OF sv n])
  have n1: "fst (fixed_solver INFEASIBLE (full_model 1 5)) \<noteq> OPTIMAL"
    and n2: "fst (fixed_solver INFEASIBLE (full_model 1 5)) \<noteq> FEASIBLE"
    using n by (simp_all add: sv)
  from solver_failure_reported [OF run inv n1 n2]
  show ?thesis
    using inv n1 n2 by (simp add: sv)
qed

theorem regeneration_replaces_schedule_witness:
  "generate_timetable_process (fixed_solver FEASIBLE) True True admin_session
       (db_with gap_roster stale_rows)
     = (JsonTimetable (shown 1 6 cyclic_values (dict_of_teachers gap_roster))
          ''Timetable generated successfully!'',
        snd (generate_timetable_process (fixed_solver FEASIBLE) True True admin_session
               (db_with gap_roster stale_rows)))
   \<and> fst (generate_timetable_process (fixed_solver OPTIMAL) True True admin_session
       (db_with full_roster (grid_rows (shown 1 6 cyclic_values (dict_of_teachers gap_roster)))))
     = JsonTimetable
         [(''MCA I'', [''Asha'', ''Bala'', ''Chitra'', ''Dev'', ''Esha'']),
          (''MCA II'', [''Bala'', ''Chitra'', ''Dev'', ''Esha'', ''Asha'']),
          (''MSC I'', [''Chitra'', ''Dev'', ''Esha'', ''Asha'', ''Bala'']),
          (''MSC II'', [''Dev'', ''Esha'', ''Asha'', ''Bala'', ''Chitra''])]
         ''Timetable generated successfully!''
   \<and> timetable (store (snd (generate_timetable_process (fixed_solver OPTIMAL) True True
        admin_session
        (db_with full_roster (grid_rows (shown 1 6 cyclic_values (dict_of_teachers gap_roster)))))))
     = grid_rows
         [(''MCA I'', [''Asha'', ''Bala'', ''Chitra'', ''Dev'', ''Esha'']),
          (''MCA II'', [''Bala'', ''Chitra'', ''Dev'', ''Esha'', ''Asha'']),
          (''MSC I'', [''Chitra'', ''Dev'', ''Esha'', ''Asha'', ''Bala'']),
          (''MSC II'', [''Dev'', ''Esha'', ''Asha'', ''Bala'', ''Chitra''])]"
proof -
  let ?g1 = "shown 1 6 cyclic_values (dict_of_teachers gap_roster)"
  let ?db0 = "db_with gap_roster stale_rows"
  let ?db1 = "db_with full_roster (grid_rows ?g1)"
  let ?r1 = "generate_timetable_process (fixed_solver FEASIBLE) True True admin_session ?db0"
  let ?r2 = "generate_timetable_process (fixed_solver OPTIMAL) True True admin_session ?db1"
  have five0: "5 \<le> length (remdups (map teacher_id (teachers ?db0)))"
    by (simp add: gap_roster_facts)
  have five1: "5 \<le> length (remdups (map teacher_id (teachers ?db1)))"
    by (simp add: full_roster_facts)
  have sv0: "fixed_solver FEASIBLE (full_model 1 6) = (FEASIBLE, cyclic_values)"
    and sv1: "fixed_solver OPTIMAL (full_model 1 5) = (OPTIMAL, cyclic_values)"
    by (simp_all add: fixed_solver_def)
  have t0: "teachers ?db0 = gap_roster" and t1: "teachers ?db1 = full_roster"
    by (simp_all add: db_with_def)
  have f1: "fst ?r1 = JsonTimetable ?g1 ''Timetable generated successfully!''"
    and s1: "timetable (store (snd ?r1)) = grid_rows ?g1"
    by (simp_all add: generate_solves [OF admin_logged_in TrueI gap_roster_facts(1,2,3) five0]
          solve_saved [of "fixed_solver FEASIBLE" 1 6 FEASIBLE cyclic_values True, OF sv0] t0)
  have f2: "fst ?r2 = JsonTimetable (shown 1 5 cyclic_values (dict_of_teachers full_roster))
                        ''Timetable generated successfully!''"
    by (simp add: generate_solves [OF admin_logged_in TrueI full_roster_facts(1,2,3) five1]
          solve_saved [of "fixed_solver OPTIMAL" 1 5 OPTIMAL cyclic_values True, OF sv1] t1)
  have first: "?r1 = (JsonTimetable ?g1 ''Timetable generated successfully!'', snd ?r1)"
    using f1 by (simp add: prod_eq_iff)
  have second: "?r2 = (JsonTimetable (shown 1 5 cyclic_values (dict_of_teachers full_roster))
                         ''Timetable generated successfully!'', snd ?r2)"
    using f2 by (simp add: prod_eq_iff)
  have between: "timetable ?db1 = timetable (store (snd ?r1))"
    using s1 by (simp add: db_with_def)
  from regeneration_replaces_schedule [OF first between second]
  have "timetable (store (snd ?r2)) = grid_rows (shown 1 5 cyclic_values (dict_of_teachers full_roster))"
    by simp
  then show ?thesis
    using first f2 by (simp add: shown_full)
qed


subsection \<open>A roster with a deleted teacher\<close>

lemma gap_roster_reachable: "post_all roster_requests fresh_db = db_with gap_roster []"
  by (simp add: post_all_def roster_requests_def fresh_db_def modify_teacher_def contains_def
        admin_session_def add_teacher_def remove_teacher_def insert_teacher_def delete_teacher_def
        strip_def isspace_def whitespace_def db_with_def gap_roster_def Let_def largest_id_def
        max_rowid_def)

lemma gap_run:
  "generate_timetable_process (fixed_solver FEASIBLE) True True admin_session (db_with gap_roster []) =
     (JsonTimetable (shown 1 6 cyclic_values (dict_of_teachers gap_roster))
        ''Timetable generated successfully!'',
      \<lparr>model = full_model 1 6, timetable_vars = full_tvars 1 6,
       display = shown 1 6 cyclic_values (dict_of_teachers gap_roster),
       store = (db_with gap_roster [])
                 \<lparr>timetable := grid_rows (shown 1 6 cyclic_values (dict_of_teachers gap_roster))\<rparr>,
       effects = built_effects 1 6
           @ [CpSolve (full_model 1 6), SqlDeleteTimetable, SqlCommit]
           @ map SqlInsertTimetable (grid_rows (shown 1 6 cyclic_values (dict_of_teachers gap_roster)))
           @ [SqlCommit]\<rparr>)"
proof -
  have five: "5 \<le> length (remdups (map teacher_id (teachers (db_with gap_roster []))))"
    by (simp add: gap_roster_facts)
  have sv: "fixed_solver FEASIBLE (full_model 1 6) = (FEASIBLE, cyclic_values)"
    by (simp add: fixed_solver_def)
  have t: "teachers (db_with gap_roster []) = gap_roster"
    by (simp add: db_with_def)
  show ?thesis
    by (simp add: generate_solves [OF admin_logged_in TrueI gap_roster_facts(1,2,3) five]
          solve_saved [of "fixed_solver FEASIBLE" 1 6 FEASIBLE cyclic_values True, OF sv] t)
qed

lemma alias_run:
  "fst (generate_timetable_process (fixed_solver FEASIBLE) True True admin_session
          (db_with alias_roster [])) =
     JsonTimetable (shown 1 6 cyclic_values (dict_of_teachers alias_roster))
        ''Timetable generated successfully!''"
proof -
  have five: "5 \<le> length (remdups (map teacher_id (teachers (db_with alias_roster []))))"
    by (simp add: alias_roster_facts)
  have sv: "fixed_solver FEASIBLE (full_model 1 6) = (FEASIBLE, cyclic_values)"
    by (simp add: fixed_solver_def)
  have t: "teachers (db_with alias_roster []) = alias_roster"
    by (simp add: db_with_def)
  show ?thesis
    by (simp add: generate_solves [OF admin_logged_in TrueI alias_roster_facts(1,2,3) five]
          solve_saved [of "fixed_solver FEASIBLE" 1 6 FEASIBLE cyclic_values True, OF sv] t)
qed

text \<open>
  What holds of every run, whatever the roster: a model handed to the solver has 20
  variables, each over the interval from the least to the greatest teacher id; and the
  values of an answer that satisfies it lie in that interval and are pairwise different
  within each period and within each class.
\<close>

lemma solver_model_domain:
  assumes run: "generate_timetable_process solve conn_ok save_conn_ok sess db = (resp, st)"
    and inv: "m \<in> set (solver_inputs (effects st))"
  shows "\<exists>lo hi. py_min (map teacher_id (teachers db)) = Inr lo
               \<and> py_max (map teacher_id (teachers db)) = Inr hi
               \<and> length (variables m) = 20
               \<and> list_all (\<lambda>v. lb v = lo \<and> ub v = hi) (variables m)"
proof -
  from run inv obtain lo hi where m: "m = full_model lo hi"
    and b: "py_min (map teacher_id (teachers db)) = Inr lo"
           "py_max (map teacher_id (teachers db)) = Inr hi"
    by (rule generate_solver_inversion) blast
  have "list_all (\<lambda>v. lb v = lo \<and> ub v = hi) (variables (full_model lo hi))"
    by (simp add: full_model_def all_vars_def var_at_def upt_20)
  then show ?thesis
    using m b by (auto simp: full_model_def)
qed

lemma solution_values_distinct:
  assumes "satisfies (full_model lo hi) val"
  shows "list_all (\<lambda>k. lo \<le> val (var_at lo hi k) \<and> val (var_at lo hi k) \<le> hi) [0..<20]"
    and "list_all (\<lambda>j. distinct (map (\<lambda>i. val (var_at lo hi (5 * i + j))) [0..<4])) [0..<5]"
    and "list_all (\<lambda>i. distinct (map (\<lambda>j. val (var_at lo hi (5 * i + j))) [0..<5])) [0..<4]"
proof -
  have bounds: "lb (var_at lo hi k) = lo" "ub (var_at lo hi k) = hi" for k
    by (simp_all add: var_at_def)
  from assms
  have v: "\<forall>k \<in> {0..<20}. lo \<le> val (var_at lo hi k) \<and> val (var_at lo hi k) \<le> hi"
    and p: "\<forall>vs \<in> set (period_groups lo hi). distinct (map val vs)"
    and c: "\<forall>vs \<in> set (class_groups lo hi). distinct (map val vs)"
    by (simp_all add: satisfies_def full_model_def all_vars_def list_all_iff bounds ball_Un)
  show "list_all (\<lambda>k. lo \<le> val (var_at lo hi k) \<and> val (var_at lo hi k) \<le> hi) [0..<20]"
    using v by (simp add: list_all_iff)
  show "list_all (\<lambda>j. distinct (map (\<lambda>i. val (var_at lo hi (5 * i + j))) [0..<4])) [0..<5]"
    using p by (simp add: period_groups_def list_all_iff comp_def)
  show "list_all (\<lambda>i. distinct (map (\<lambda>j. val (var_at lo hi (5 * i + j))) [0..<5])) [0..<4]"
    using c by (simp add: class_groups_def list_all_iff comp_def)
qed

text \<open>
  C1 does not hold of the code.  \<open>gap_roster\<close> has five distinct teachers, with ids 1, 2,
  4, 5, 6.  The model handed to the solver is \<open>full_model 1 6\<close>, and the solver's answer
  (status \<open>FEASIBLE\<close>, values \<open>cyclic_values\<close>) satisfies it.  The run succeeds, and the
  slot of class MCA I in period 3 (like three other slots) is stored and returned as
  "Unknown Teacher ID: 3", which is the name of no teacher of the roster.  With
  \<open>alias_roster\<close>, whose first teacher bears that text as a name, the classes MCA I and
  MSC I get the same name in period 1, and MCA I gets it twice.
\<close>

theorem gap_roster_slot_without_teacher:
  "5 \<le> length (remdups (map teacher_id gap_roster))
   \<and> solver_inputs (effects (snd (generate_timetable_process (fixed_solver FEASIBLE) True True
         admin_session (db_with gap_roster [])))) = [full_model 1 6]
   \<and> fixed_solver FEASIBLE (full_model 1 6) = (FEASIBLE, cyclic_values)
   \<and> satisfies (full_model 1 6) cyclic_values
   \<and> fst (generate_timetable_process (fixed_solver FEASIBLE) True True admin_session
            (db_with gap_roster []))
       = JsonTimetable
           [(''MCA I'', [''Asha'', ''Bala'', ''Unknown Teacher ID: 3'', ''Dev'', ''Esha'']),
            (''MCA II'', [''Bala'', ''Unknown Teacher ID: 3'', ''Dev'', ''Esha'', ''Asha'']),
            (''MSC I'', [''Unknown Teacher ID: 3'', ''Dev'', ''Esha'', ''Asha'', ''Bala'']),
            (''MSC II'', [''Dev'', ''Esha'', ''Asha'', ''Bala'', ''Unknown Teacher ID: 3''])]
           ''Timetable generated successfully!''
   \<and> \<lparr>class_name = ''MCA I'', slot = SqlInteger 3, teacher_name = ''Unknown Teacher ID: 3''\<rparr>
       \<in> set (timetable (store (snd (generate_timetable_process (fixed_solver FEASIBLE) True True
                  admin_session (db_with gap_roster [])))))
   \<and> ''Unknown Teacher ID: 3'' \<notin> set (map name gap_roster)
   \<and> 5 \<le> length (remdups (map teacher_id alias_roster))
   \<and> fst (generate_timetable_process (fixed_solver FEASIBLE) True True admin_session
            (db_with alias_roster []))
       = JsonTimetable
           [(''MCA I'', [''Unknown Teacher ID: 3'', ''Bala'', ''Unknown Teacher ID: 3'', ''Dev'', ''Esha'']),
            (''MCA II'', [''Bala'', ''Unknown Teacher ID: 3'', ''Dev'', ''Esha'', ''Unknown Teacher ID: 3'']),
            (''MSC I'', [''Unknown Teacher ID: 3'', ''Dev'', ''Esha'', ''Unknown Teacher ID: 3'', ''Bala'']),
            (''MSC II'', [''Dev'', ''Esha'', ''Unknown Teacher ID: 3'', ''Bala'', ''Unknown Teacher ID: 3''])]
           ''Timetable generated successfully!''"
proof -
  have a: "5 \<le> length (remdups (map teacher_id gap_roster))"
    and b: "5 \<le> length (remdups (map teacher_id alias_roster))"
    and c: "''Unknown Teacher ID: 3'' \<notin> set (map name gap_roster)"
    by (simp_all add: gap_roster_def alias_roster_def)
  have d: "fixed_solver FEASIBLE (full_model 1 6) = (FEASIBLE, cyclic_values)"
    by (simp add: fixed_solver_def)
  have e: "satisfies (full_model 1 6) cyclic_values"
    by (simp add: cyclic_values_solution)
  have f: "solver_inputs (effects (snd (generate_timetable_process (fixed_solver FEASIBLE) True True
         admin_session (db_with gap_roster [])))) = [full_model 1 6]"
    by (simp add: gap_run)
  have g: "\<lparr>class_name = ''MCA I'', slot = SqlInteger 3, teacher_name = ''Unknown Teacher ID: 3''\<rparr>
       \<in> set (timetable (store (snd (generate_timetable_process (fixed_solver FEASIBLE) True True
                  admin_session (db_with gap_roster [])))))"
    by (simp add: gap_run shown_gap grid_rows_def)
  show ?thesis
    using a b c d e f g by (simp add: gap_run alias_run shown_gap shown_alias)
qed

text \<open>
  C2 does not hold of the code.  The roster with ids 1, 2, 4, 5, 6 is what six add
  requests and the deletion of the third teacher leave.  Each of the 20 variables of the
  model handed to the solver has the interval from 1 to 6 as its domain; 3 lies in it and
  is the id of no teacher.  An answer that satisfies the model gives the value 3 to the
  variable of class MCA I, period 3.
\<close>

theorem gap_roster_domain_has_deleted_id:
  "post_all roster_requests fresh_db = db_with gap_roster []
   \<and> solver_inputs (effects (snd (generate_timetable_process (fixed_solver FEASIBLE) True True
         admin_session (db_with gap_roster [])))) = [full_model 1 6]
   \<and> length (variables (full_model 1 6)) = 20
   \<and> list_all (\<lambda>v. lb v = 1 \<and> ub v = 6) (variables (full_model 1 6))
   \<and> (3::int) \<notin> set (map teacher_id gap_roster)
   \<and> satisfies (full_model 1 6) cyclic_values
   \<and> cyclic_values (var_at 1 6 2) = 3"
proof -
  have f: "solver_inputs (effects (snd (generate_timetable_process (fixed_solver FEASIBLE) True True
         admin_session (db_with gap_roster [])))) = [full_model 1 6]"
    by (simp add: gap_run)
  have v: "list_all (\<lambda>v. lb v = 1 \<and> ub v = 6) (variables (full_model 1 6))"
    by (simp add: full_model_def all_vars_def var_at_def upt_20)
  have n: "(3::int) \<notin> set (map teacher_id gap_roster)"
    by (simp add: gap_roster_def)
  have e: "satisfies (full_model 1 6) cyclic_values"
    by (simp add: cyclic_values_solution)
  have c: "cyclic_values (var_at 1 6 2) = 3"
    by (simp add: cyclic_values_def var_at_def)
  show ?thesis
    using f v n e c gap_roster_reachable by (simp add: full_model_def)
qed


subsection \<open>The exporter\<close>

lemma select_timetable_Nil [simp]: "select_timetable db = [] \<longleftrightarrow> timetable db = []"
proof -
  have "length (select_timetable db) = length (timetable db)"
    by (simp add: select_timetable_def)
  then show ?thesis
    by (cases "select_timetable db"; cases "timetable db") simp_all
qed

lemma zip_map_same: "zip xs (map g xs) = map (\<lambda>x. (x, g x)) xs"
  by (induction xs) auto

lemma sheet_rows_pivot:
  "sheet_rows (to_sheet (pivot_table df)) =
     map (\<lambda>c. Some c #
                map (\<lambda>s. map_option teacher_name (find (\<lambda>r. class_name r = c \<and> slot r = s) df))
                  (sort (remdups (map slot df))))
       (sort (remdups (map class_name df)))"
  by (simp add: to_sheet_def pivot_table_def Let_def zip_map_same comp_def)

lemma sheet_columns_pivot:
  "sheet_columns (to_sheet (pivot_table df)) =
     ''Class'' # map (\<lambda>s. ''Period '' @ str_int s) (sort (remdups (map slot df)))"
  by (simp add: to_sheet_def pivot_table_def Let_def)

lemma pivot_cell:
  assumes uniq: "\<forall>r \<in> set df. \<forall>r' \<in> set df.
                   class_name r = class_name r' \<and> slot r = slot r' \<longrightarrow> r = r'"
    and r: "r \<in> set df"
  shows "\<exists>i j. i < length (sheet_rows (to_sheet (pivot_table df)))
             \<and> j < length (sort (remdups (map slot df)))
             \<and> sort (remdups (map slot df)) ! j = slot r
             \<and> sheet_rows (to_sheet (pivot_table df)) ! i ! 0 = Some (class_name r)
             \<and> sheet_rows (to_sheet (pivot_table df)) ! i ! (j + 1) = Some (teacher_name r)"
proof -
  let ?idx = "sort (remdups (map class_name df))"
  let ?cols = "sort (remdups (map slot df))"
  have "class_name r \<in> set ?idx" using r by simp
  then obtain i where i: "i < length ?idx" "?idx ! i = class_name r"
    by (meson in_set_conv_nth)
  have "slot r \<in> set ?cols" using r by simp
  then obtain j where j: "j < length ?cols" "?cols ! j = slot r"
    by (meson in_set_conv_nth)
  have "find (\<lambda>x. class_name x = class_name r \<and> slot x = slot r) df \<noteq> None"
    using r by (auto simp: find_None_iff)
  then obtain r' where r': "find (\<lambda>x. class_name x = class_name r \<and> slot x = slot r) df = Some r'"
    by auto
  from find_SomeD [OF this] uniq r have "r' = r" by blast
  with r' have f: "find (\<lambda>x. class_name x = class_name r \<and> slot x = slot r) df = Some r"
    by simp
  have "sheet_rows (to_sheet (pivot_table df)) ! i ! 0 = Some (class_name r)"
    using i by (simp add: sheet_rows_pivot)
  moreover have "sheet_rows (to_sheet (pivot_table df)) ! i ! (j + 1) = Some (teacher_name r)"
    using i j f by (simp add: sheet_rows_pivot)
  moreover have "i < length (sheet_rows (to_sheet (pivot_table df)))"
    using i by (simp add: sheet_rows_pivot)
  ultimately show ?thesis
    using j by blast
qed

text \<open>The frame of a store whose slots are all integers.\<close>

lemma integer_frame_exists:
  assumes "\<forall>r \<in> set df. \<exists>n. slot r = SqlInteger n"
  shows "\<exists>fr. integer_frame df = Some fr \<and> df = map stored_of_frame fr"
  using assms
proof (induction df)
  case Nil
  then show ?case by simp
next
  case (Cons r df)
  then obtain n where n: "slot r = SqlInteger n" by auto
  from Cons obtain fr where fr: "integer_frame df = Some fr" "df = map stored_of_frame fr"
    by auto
  let ?f = "\<lparr>class_name = class_name r, slot = n, teacher_name = teacher_name r\<rparr>"
  have "stored_of_frame ?f = r"
    using n by (simp add: stored_of_frame_def)
  then have "integer_frame (r # df) = Some (?f # fr) \<and> r # df = map stored_of_frame (?f # fr)"
    using n fr by simp
  then show ?case by (rule exI [of _ "?f # fr"])
qed

lemma stored_of_frame_fields [simp]:
  "class_name (stored_of_frame f) = class_name f"
  "slot (stored_of_frame f) = SqlInteger (slot f)"
  "teacher_name (stored_of_frame f) = teacher_name f"
  by (simp_all add: stored_of_frame_def)

lemma stored_of_frame_inj:
  assumes "stored_of_frame f = stored_of_frame f'"
  shows "f = f'"
proof -
  have "class_name (stored_of_frame f) = class_name (stored_of_frame f')"
    and "slot (stored_of_frame f) = slot (stored_of_frame f')"
    and "teacher_name (stored_of_frame f) = teacher_name (stored_of_frame f')"
    using assms by simp_all
  then show ?thesis
    by (intro timetable_row.equality) simp_all
qed

text \<open>
  C9.  With a session and a connection: when the timetable table is empty the answer is
  "No timetable data to export." with status 404 and the files are as before.  When it
  is not empty and its slots are integers, the sheet built is the pivot of the rows: its
  columns are \<open>Class\<close> and one \<open>Period s\<close> for each distinct slot \<open>s\<close> of the table, in
  increasing order; it has one row for each distinct class name, in increasing order,
  starting with the class name; every row has one cell per column; and, when the table
  has at most one row per class and slot, each stored row's teacher is in the row of its
  class under the column of its slot.  That sheet is written to \<open>timetable.xlsx\<close> unless
  the writer raises, in which case the answer is the error with status 500 and no file
  is written.
\<close>

theorem export_outcomes:
  assumes auth: "contains ''user'' sess" and conn: "conn_ok"
  shows "(timetable db = [] \<longrightarrow>
            export_timetable pandas_other write_error conn_ok sess db files
              = (ExportText ''No timetable data to export.'' 404, files))
       \<and> (timetable db \<noteq> [] \<and> (\<forall>r \<in> set (timetable db). \<exists>n. slot r = SqlInteger n) \<longrightarrow>
            (\<exists>fr sh cols cls.
                integer_frame (select_timetable db) = Some fr
              \<and> sh = to_sheet (pivot_table fr)
              \<and> export_timetable pandas_other write_error conn_ok sess db files =
                  (case write_error of
                     None \<Rightarrow> (ExportText ''Timetable exported successfully to timetable.xlsx!'' 200,
                              AList.update ''timetable.xlsx'' sh files)
                   | Some e \<Rightarrow> (ExportText (''Error exporting timetable: '' @ e) 500, files))
              \<and> sheet_columns sh = ''Class'' # map (\<lambda>s. ''Period '' @ str_int s) cols
              \<and> sorted cols \<and> distinct cols \<and> SqlInteger ` set cols = slot ` set (timetable db)
              \<and> map hd (sheet_rows sh) = map Some cls
              \<and> sorted cls \<and> distinct cls \<and> set cls = class_name ` set (timetable db)
              \<and> (\<forall>row \<in> set (sheet_rows sh). length row = length (sheet_columns sh))
              \<and> ((\<forall>r \<in> set (timetable db). \<forall>r' \<in> set (timetable db).
                     class_name r = class_name r' \<and> slot r = slot r' \<longrightarrow> r = r') \<longrightarrow>
                  (\<forall>r \<in> set (timetable db).
                     \<exists>i j. i < length (sheet_rows sh) \<and> j < length cols
                          \<and> SqlInteger (cols ! j) = slot r
                          \<and> sheet_rows sh ! i ! 0 = Some (class_name r)
                          \<and> sheet_rows sh ! i ! (j + 1) = Some (teacher_name r)))))"
proof (intro conjI impI)
  assume "timetable db = []"
  then show "export_timetable pandas_other write_error conn_ok sess db files
              = (ExportText ''No timetable data to export.'' 404, files)"
    using auth conn by (simp add: export_timetable_def)
next
  assume a: "timetable db \<noteq> [] \<and> (\<forall>r \<in> set (timetable db). \<exists>n. slot r = SqlInteger n)"
  then have ne: "timetable db \<noteq> []"
    and ints: "\<forall>r \<in> set (select_timetable db). \<exists>n. slot r = SqlInteger n"
    by simp_all
  let ?df = "select_timetable db"
  from integer_frame_exists [OF ints]
  obtain fr where fr: "integer_frame ?df = Some fr" and df: "?df = map stored_of_frame fr"
    by blast
  let ?sh = "to_sheet (pivot_table fr)"
  let ?cols = "sort (remdups (map slot fr))"
  let ?cls = "sort (remdups (map class_name fr))"
  have "set (select_timetable db) = stored_of_frame ` set fr"
    by (simp only: df set_map)
  then have tt: "set (timetable db) = stored_of_frame ` set fr"
    by simp
  have run: "export_timetable pandas_other write_error conn_ok sess db files =
                  (case write_error of
                     None \<Rightarrow> (ExportText ''Timetable exported successfully to timetable.xlsx!'' 200,
                              AList.update ''timetable.xlsx'' ?sh files)
                   | Some e \<Rightarrow> (ExportText (''Error exporting timetable: '' @ e) 500, files))"
    using auth conn ne fr by (simp add: export_timetable_def Let_def split: option.splits)
  have cols: "sheet_columns ?sh = ''Class'' # map (\<lambda>s. ''Period '' @ str_int s) ?cols"
    by (rule sheet_columns_pivot)
  have cols_p: "sorted ?cols" "distinct ?cols"
    by simp_all
  have cols_s: "SqlInteger ` set ?cols = slot ` set (timetable db)"
    by (simp add: tt image_image)
  have cls: "map hd (sheet_rows ?sh) = map Some ?cls"
    by (simp add: sheet_rows_pivot comp_def)
  have cls_p: "sorted ?cls" "distinct ?cls"
    by simp_all
  have cls_s: "set ?cls = class_name ` set (timetable db)"
    by (simp add: tt image_image)
  have len: "\<forall>row \<in> set (sheet_rows ?sh). length row = length (sheet_columns ?sh)"
    by (auto simp: sheet_rows_pivot sheet_columns_pivot)
  have content: "(\<forall>r \<in> set (timetable db). \<forall>r' \<in> set (timetable db).
                     class_name r = class_name r' \<and> slot r = slot r' \<longrightarrow> r = r') \<longrightarrow>
                  (\<forall>r \<in> set (timetable db).
                     \<exists>i j. i < length (sheet_rows ?sh) \<and> j < length ?cols
                          \<and> SqlInteger (?cols ! j) = slot r
                          \<and> sheet_rows ?sh ! i ! 0 = Some (class_name r)
                          \<and> sheet_rows ?sh ! i ! (j + 1) = Some (teacher_name r))"
  proof (intro impI ballI)
    fix r
    assume u: "\<forall>r \<in> set (timetable db). \<forall>r' \<in> set (timetable db).
                     class_name r = class_name r' \<and> slot r = slot r' \<longrightarrow> r = r'"
      and r: "r \<in> set (timetable db)"
    from r tt obtain f where f: "f \<in> set fr" "r = stored_of_frame f"
      by auto
    have u': "\<forall>f \<in> set fr. \<forall>f' \<in> set fr.
                     class_name f = class_name f' \<and> slot f = slot f' \<longrightarrow> f = f'"
    proof (intro ballI impI)
      fix f f'
      assume "f \<in> set fr" "f' \<in> set fr" "class_name f = class_name f' \<and> slot f = slot f'"
      then have "stored_of_frame f \<in> set (timetable db)"
        and "stored_of_frame f' \<in> set (timetable db)"
        and "class_name (stored_of_frame f) = class_name (stored_of_frame f')
             \<and> slot (stored_of_frame f) = slot (stored_of_frame f')"
        using tt by simp_all
      with u have "stored_of_frame f = stored_of_frame f'"
        by blast
      then show "f = f'" by (rule stored_of_frame_inj)
    qed
    from pivot_cell [OF u' f(1)]
    show "\<exists>i j. i < length (sheet_rows ?sh) \<and> j < length ?cols
                          \<and> SqlInteger (?cols ! j) = slot r
                          \<and> sheet_rows ?sh ! i ! 0 = Some (class_name r)
                          \<and> sheet_rows ?sh ! i ! (j + 1) = Some (teacher_name r)"
      using f(2) by auto
  qed
  show "\<exists>fr sh cols cls.
                integer_frame (select_timetable db) = Some fr
              \<and> sh = to_sheet (pivot_table fr)
              \<and> export_timetable pandas_other write_error conn_ok sess db files =
                  (case write_error of
                     None \<Rightarrow> (ExportText ''Timetable exported successfully to timetable.xlsx!'' 200,
                              AList.update ''timetable.xlsx'' sh files)
                   | Some e \<Rightarrow> (ExportText (''Error exporting timetable: '' @ e) 500, files))
              \<and> sheet_columns sh = ''Class'' # map (\<lambda>s. ''Period '' @ str_int s) cols
              \<and> sorted cols \<and> distinct cols \<and> SqlInteger ` set cols = slot ` set (timetable db)
              \<and> map hd (sheet_rows sh) = map Some cls
              \<and> sorted cls \<and> distinct cls \<and> set cls = class_name ` set (timetable db)
              \<and> (\<forall>row \<in> set (sheet_rows sh). length row = length (sheet_columns sh))
              \<and> ((\<forall>r \<in> set (timetable db). \<forall>r' \<in> set (timetable db).
                     class_name r = class_name r' \<and> slot r = slot r' \<longrightarrow> r = r') \<longrightarrow>
                  (\<forall>r \<in> set (timetable db).
                     \<exists>i j. i < length (sheet_rows sh) \<and> j < length cols
                          \<and> SqlInteger (cols ! j) = slot r
                          \<and> sheet_rows sh ! i ! 0 = Some (class_name r)
                          \<and> sheet_rows sh ! i ! (j + 1) = Some (teacher_name r)))"
    apply (rule exI [of _ fr], rule exI [of _ ?sh], rule exI [of _ ?cols], rule exI [of _ ?cls])
    apply (intro conjI)
                apply (rule fr)
               apply (rule refl)
              apply (rule run)
             apply (rule cols)
            apply (rule cols_p(1))
           apply (rule cols_p(2))
          apply (rule cols_s)
         apply (rule cls)
        apply (rule cls_p(1))
       apply (rule cls_p(2))
      apply (rule cls_s)
     apply (rule len)
    apply (rule content)
    done
qed

theorem export_outcomes_witness:
  "contains ''user'' admin_session
   \<and> export_timetable pandas_refuses None True admin_session (db_with full_roster []) []
       = (ExportText ''No timetable data to export.'' 404, [])
   \<and> export_timetable pandas_refuses None True admin_session
         (db_with full_roster
            (grid_rows
               [(''MSC I'', [''Chitra'', ''Dev'', ''Esha'', ''Asha'', ''Bala'']),
                (''MCA I'', [''Asha'', ''Bala'', ''Chitra'', ''Dev'', ''Esha''])])) []
       = (ExportText ''Timetable exported successfully to timetable.xlsx!'' 200,
          [(''timetable.xlsx'',
            \<lparr>sheet_columns = [''Class'', ''Period 1'', ''Period 2'', ''Period 3'', ''Period 4'',
                               ''Period 5''],
             sheet_rows =
               [[Some ''MCA I'', Some ''Asha'', Some ''Bala'', Some ''Chitra'', Some ''Dev'',
                 Some ''Esha''],
                [Some ''MSC I'', Some ''Chitra'', Some ''Dev'', Some ''Esha'', Some ''Asha'',
                 Some ''Bala'']]\<rparr>)])"
proof -
  let ?rows = "grid_rows
               [(''MSC I'', [''Chitra'', ''Dev'', ''Esha'', ''Asha'', ''Bala'']),
                (''MCA I'', [''Asha'', ''Bala'', ''Chitra'', ''Dev'', ''Esha''])]"
  let ?frame = "[\<lparr>class_name = ''MCA I'', slot = 1, teacher_name = ''Asha''\<rparr>,
                 \<lparr>class_name = ''MCA I'', slot = 2, teacher_name = ''Bala''\<rparr>,
                 \<lparr>class_name = ''MCA I'', slot = 3, teacher_name = ''Chitra''\<rparr>,
                 \<lparr>class_name = ''MCA I'', slot = 4, teacher_name = ''Dev''\<rparr>,
                 \<lparr>class_name = ''MCA I'', slot = 5, teacher_name = ''Esha''\<rparr>,
                 \<lparr>class_name = ''MSC I'', slot = 1, teacher_name = ''Chitra''\<rparr>,
                 \<lparr>class_name = ''MSC I'', slot = 2, teacher_name = ''Dev''\<rparr>,
                 \<lparr>class_name = ''MSC I'', slot = 3, teacher_name = ''Esha''\<rparr>,
                 \<lparr>class_name = ''MSC I'', slot = 4, teacher_name = ''Asha''\<rparr>,
                 \<lparr>class_name = ''MSC I'', slot = 5, teacher_name = ''Bala''\<rparr>] :: frame_row list"
  have a: "contains ''user'' admin_session"
    by (rule admin_logged_in)
  have e: "timetable (db_with full_roster []) = []"
    by (simp add: db_with_def)
  have n: "timetable (db_with full_roster ?rows) \<noteq> []
           \<and> (\<forall>r \<in> set (timetable (db_with full_roster ?rows)). \<exists>n. slot r = SqlInteger n)"
    by (simp add: db_with_def grid_rows_def)
  have fr: "integer_frame (select_timetable (db_with full_roster ?rows)) = Some ?frame"
    by (simp add: select_timetable_def db_with_def grid_rows_def)
  have sh: "to_sheet (pivot_table ?frame) =
            \<lparr>sheet_columns = [''Class'', ''Period 1'', ''Period 2'', ''Period 3'', ''Period 4'',
                               ''Period 5''],
             sheet_rows =
               [[Some ''MCA I'', Some ''Asha'', Some ''Bala'', Some ''Chitra'', Some ''Dev'',
                 Some ''Esha''],
                [Some ''MSC I'', Some ''Chitra'', Some ''Dev'', Some ''Esha'', Some ''Asha'',
                 Some ''Bala'']]\<rparr>"
    by (simp add: to_sheet_def pivot_table_def str_int_def str_nat.simps digit_char_def Let_def)
  from export_outcomes [OF a TrueI, of "db_with full_roster []" pandas_refuses None "[]"] e
  have first: "export_timetable pandas_refuses None True admin_session (db_with full_roster []) []
       = (ExportText ''No timetable data to export.'' 404, [])"
    by simp
  from export_outcomes [OF a TrueI, of "db_with full_roster ?rows" pandas_refuses None "[]"] n
  obtain f s where "integer_frame (select_timetable (db_with full_roster ?rows)) = Some f"
    and "s = to_sheet (pivot_table f)"
    and "export_timetable pandas_refuses None True admin_session (db_with full_roster ?rows) []
           = (ExportText ''Timetable exported successfully to timetable.xlsx!'' 200,
              AList.update ''timetable.xlsx'' s [])"
    by auto
  then have second: "export_timetable pandas_refuses None True admin_session
                       (db_with full_roster ?rows) []
           = (ExportText ''Timetable exported successfully to timetable.xlsx!'' 200,
              [(''timetable.xlsx'', to_sheet (pivot_table ?frame))])"
    using fr by simp
  show ?thesis
    using a first second sh by simp
qed

end
